theory Spec2Isabelle
  imports Main "HOL-Library.Word"
begin

unbundle bit_operations_syntax

section \<open>V4-front: the Forth-style bytecode compiler of v4\_cli\<close>

text \<open>
  A shallow embedding of \<^verbatim>\<open>vendor/V4-front/src/compile.cpp\<close> and
  \<^verbatim>\<open>vendor/V4-front/src/bytecode_io.cpp\<close>.  Source strings are
  \<^typ>\<open>string\<close> (one \<^typ>\<open>char\<close> per byte), bytes are \<^typ>\<open>8 word\<close>, every
  early return of the C++ code is a branch of the model, and the allocator is part of the
  state, so that the \<^verbatim>\<open>OutOfMemory\<close> paths are reachable.
\<close>

subsection \<open>Characters and C strings\<close>

type_synonym byte = "8 word"

text \<open>\<^verbatim>\<open>isspace\<close> and \<^verbatim>\<open>tolower\<close> of the C library, in the "C" locale.\<close>

definition isspace :: "char \<Rightarrow> bool" where
  "isspace c = (c \<in> set [CHR '' '', CHR 0x09, CHR 0x0A, CHR 0x0B, CHR 0x0C, CHR 0x0D])"

definition tolower :: "char \<Rightarrow> char" where
  "tolower c =
     (case map_of (zip ''ABCDEFGHIJKLMNOPQRSTUVWXYZ'' ''abcdefghijklmnopqrstuvwxyz'') c of
        Some l \<Rightarrow> l
      | None \<Rightarrow> c)"

text \<open>
  A \<^verbatim>\<open>const char*\<close> ends at its first NUL byte: \<open>c_str\<close> is what the C code
  sees of a byte sequence.
\<close>

definition c_str :: "string \<Rightarrow> string" where
  "c_str s = takeWhile (\<lambda>c. c \<noteq> CHR 0x00) s"

text \<open>
  \<^verbatim>\<open>str_eq_ci\<close> (compile.cpp:29): walks both strings while neither has ended,
  then compares the two current characters (equal only when both strings have ended).
\<close>

fun str_eq_ci :: "string \<Rightarrow> string \<Rightarrow> bool" where
  "str_eq_ci (a # as) (b # bs) = (if tolower a \<noteq> tolower b then False else str_eq_ci as bs)"
| "str_eq_ci [] [] = True"
| "str_eq_ci [] (b # bs) = False"
| "str_eq_ci (a # as) [] = False"

subsection \<open>The integer parser\<close>

text \<open>
  \<^verbatim>\<open>strtol(token, &endptr, 0)\<close> of the C library (ISO C17, 7.22.1.4), for a
  \<^verbatim>\<open>long\<close> of \<open>long_bits\<close> bits: optional white space, an optional sign,
  the base taken from the prefix (\<^verbatim>\<open>0x\<close>/\<^verbatim>\<open>0X\<close> before a hexadecimal digit:
  16; a leading \<^verbatim>\<open>0\<close>: 8; otherwise 10), then the longest run of digits of that
  base.  A value outside \<^verbatim>\<open>long\<close> is clamped to \<^verbatim>\<open>LONG_MIN\<close> or
  \<^verbatim>\<open>LONG_MAX\<close>.  The result is \<open>None\<close> when no conversion is performed
  (\<^verbatim>\<open>endptr == token\<close>), else the value and the unparsed rest of the string.
\<close>

definition digit_val :: "char \<Rightarrow> int option" where
  "digit_val c = (let n = (of_char c :: int) in
     if 48 \<le> n \<and> n \<le> 57 then Some (n - 48)
     else if 97 \<le> n \<and> n \<le> 122 then Some (n - 87)
     else if 65 \<le> n \<and> n \<le> 90 then Some (n - 55)
     else None)"

definition is_digit :: "int \<Rightarrow> char \<Rightarrow> bool" where
  "is_digit base c = (case digit_val c of None \<Rightarrow> False | Some d \<Rightarrow> d < base)"

fun digits_value :: "int \<Rightarrow> int \<Rightarrow> string \<Rightarrow> int" where
  "digits_value base acc [] = acc"
| "digits_value base acc (c # cs) =
     digits_value base (acc * base + (case digit_val c of None \<Rightarrow> 0 | Some d \<Rightarrow> d)) cs"

definition clamp_long :: "nat \<Rightarrow> int \<Rightarrow> int" where
  "clamp_long long_bits v =
     (if v > 2 ^ (long_bits - 1) - 1 then 2 ^ (long_bits - 1) - 1
      else if v < - (2 ^ (long_bits - 1)) then - (2 ^ (long_bits - 1))
      else v)"

definition strtol_base :: "string \<Rightarrow> int \<times> string" where
  "strtol_base s =
     (case s of
        c0 # x # h # rest \<Rightarrow>
          if c0 = CHR ''0'' \<and> (x = CHR ''x'' \<or> x = CHR ''X'') \<and> is_digit 16 h
          then (16, h # rest)
          else if c0 = CHR ''0'' then (8, s) else (10, s)
      | c0 # rest \<Rightarrow> if c0 = CHR ''0'' then (8, s) else (10, s)
      | [] \<Rightarrow> (10, s))"

definition strtol :: "nat \<Rightarrow> string \<Rightarrow> (int \<times> string) option" where
  "strtol long_bits token =
     (let s0 = dropWhile isspace token;
          (neg, s1) = (case s0 of
                         c # cs \<Rightarrow> if c = CHR ''-'' then (True, cs)
                                   else if c = CHR ''+'' then (False, cs)
                                   else (False, s0)
                       | [] \<Rightarrow> (False, s0));
          (base, s2) = strtol_base s1;
          ds = takeWhile (is_digit base) s2;
          rest = dropWhile (is_digit base) s2
      in if ds = [] then None
         else let n = digits_value base 0 ds
              in Some (clamp_long long_bits (if neg then - n else n), rest))"

text \<open>
  \<^verbatim>\<open>try_parse_int\<close> (compile.cpp:291): fails when nothing was converted or when
  characters are left over; otherwise the \<^verbatim>\<open>long\<close> is cast to
  \<^verbatim>\<open>int32_t\<close>, which keeps its low 32 bits.  There is no range check.
\<close>

definition try_parse_int :: "nat \<Rightarrow> string \<Rightarrow> 32 word option" where
  "try_parse_int long_bits token =
     (case strtol long_bits token of
        None \<Rightarrow> None
      | Some (val, endptr) \<Rightarrow> if endptr \<noteq> [] then None else Some (word_of_int val))"

subsection \<open>Opcodes, errors and the platform\<close>

text \<open>The members of \<^verbatim>\<open>v4::Op\<close> that compile.cpp emits.\<close>

datatype Op =
    Op_LIT | Op_LIT0 | Op_LITN1
  | Op_DUP | Op_DROP | Op_SWAP | Op_OVER
  | Op_TOR | Op_FROMR | Op_RFETCH
  | Op_ADD | Op_SUB | Op_MUL | Op_DIV | Op_MOD | Op_INC | Op_DEC | Op_DIVU | Op_MODU
  | Op_EQ | Op_NE | Op_LT | Op_LE | Op_GT | Op_GE | Op_LTU | Op_LEU
  | Op_AND | Op_OR | Op_XOR | Op_INVERT | Op_SHL | Op_SHR | Op_SAR
  | Op_LOAD | Op_STORE | Op_LOAD8U | Op_STORE8 | Op_LOAD16U | Op_STORE16
  | Op_LGET0 | Op_LGET1 | Op_LSET0 | Op_LSET1
  | Op_LGET | Op_LSET | Op_LTEE | Op_LINC | Op_LDEC
  | Op_JMP | Op_JZ | Op_CALL | Op_RET | Op_SYS

text \<open>The failure codes of \<^verbatim>\<open>FrontErr\<close>; success (\<^verbatim>\<open>FrontErr::OK\<close>) is \<open>Inr\<close>.\<close>

datatype FrontErr =
    UnknownToken | InvalidInteger | OutOfMemory | BufferTooSmall
  | ElseWithoutIf | ThenWithoutIf | DuplicateElse | UnclosedIf
  | UntilWithoutBegin | WhileWithoutBegin | RepeatWithoutBegin | RepeatWithoutWhile
  | DuplicateWhile | UntilAfterWhile | AgainWithoutBegin | AgainAfterWhile | UnclosedBegin
  | LoopWithoutDo | PLoopWithoutDo | LeaveWithoutDo | LeaveDepthExceeded | UnclosedDo
  | NestedColon | ColonWithoutName | SemicolonWithoutColon | DuplicateWord
  | DictionaryFull | UnclosedColon | RecurseOutsideWord
  | ControlDepthExceeded
  | MissingSysId | InvalidSysId | MissingLocalIdx | InvalidLocalIdx

text \<open>
  A run either returns an error code or leaves defined behaviour: a store outside the
  allocated buffer, \<^verbatim>\<open>realloc\<close> with size 0, \<^verbatim>\<open>free\<close> of a dangling pointer.
\<close>

datatype fault = Failed FrontErr | Undefined_Behaviour

text \<open>
  What the build fixes and the repository does not contain: the byte of each opcode
  (\<^verbatim>\<open>v4/opcodes.def\<close> belongs to the VM) and the width of \<^verbatim>\<open>long\<close>.
\<close>

record platform =
  opcode :: "Op \<Rightarrow> byte"
  long_bits :: nat

definition bindE :: "'e + 'a \<Rightarrow> ('a \<Rightarrow> 'e + 'b) \<Rightarrow> 'e + 'b" where
  "bindE m f = (case m of Inl e \<Rightarrow> Inl e | Inr x \<Rightarrow> f x)"

subsection \<open>Compiler state\<close>

text \<open>
  A growable buffer is the triple \<^verbatim>\<open>(buf, size, cap)\<close> of the source:
  \<open>bytes\<close> are the \<^verbatim>\<open>size\<close> bytes written so far, \<open>cap\<close> is the
  \<^verbatim>\<open>uint32_t\<close> capacity; the pointer is null exactly when \<open>cap = 0\<close>.
\<close>

record Buffer =
  bytes :: "byte list"
  cap :: "32 word"

definition empty_buffer :: Buffer where
  "empty_buffer = \<lparr>bytes = [], cap = 0\<rparr>"

record WordDefEntry =
  name :: string
  code :: "byte list"

text \<open>
  \<^verbatim>\<open>ControlFrame\<close>: the fields that the source reads for each \<^verbatim>\<open>ControlType\<close>.
  \<open>IF_CONTROL jz_patch_addr jmp_patch_addr has_else\<close>,
  \<open>BEGIN_CONTROL begin_addr while_patch_addr has_while\<close>,
  \<open>DO_CONTROL do_addr leave_patch_addrs\<close> (\<^verbatim>\<open>leave_count\<close> is the length of the list).
\<close>

datatype ControlFrame =
    IF_CONTROL nat nat bool
  | BEGIN_CONTROL nat nat bool
  | DO_CONTROL nat "nat list"

text \<open>
  The local variables of \<^verbatim>\<open>compile_internal\<close>.  \<open>heap\<close> is the number of
  allocations (\<^verbatim>\<open>realloc\<close>, \<^verbatim>\<open>malloc\<close>, \<^verbatim>\<open>strdup\<close>) that will still
  succeed; the code returns at the first one that fails.  The control stack has its top at
  the head; \<^verbatim>\<open>control_depth\<close> is its length, \<^verbatim>\<open>word_count\<close> the length of
  \<open>word_dict\<close>.  \<^verbatim>\<open>current_bc\<close> points to \<^verbatim>\<open>word_bc\<close> exactly while
  \<^verbatim>\<open>in_definition\<close> is set (both change together in \<^verbatim>\<open>handle_colon_start\<close>
  and \<^verbatim>\<open>handle_semicolon_end\<close>).
\<close>

record cstate =
  heap :: nat
  bc :: Buffer
  word_bc :: Buffer
  in_definition :: bool
  current_word_name :: string
  control_stack :: "ControlFrame list"
  word_dict :: "WordDefEntry list"

definition init_state :: "nat \<Rightarrow> cstate" where
  "init_state h = \<lparr>heap = h, bc = empty_buffer, word_bc = empty_buffer,
                   in_definition = False, current_word_name = [],
                   control_stack = [], word_dict = []\<rparr>"

definition current_bc :: "cstate \<Rightarrow> Buffer" where
  "current_bc st = (if in_definition st then word_bc st else bc st)"

definition set_current_bc :: "Buffer \<Rightarrow> cstate \<Rightarrow> cstate" where
  "set_current_bc b st = (if in_definition st then st\<lparr>word_bc := b\<rparr> else st\<lparr>bc := b\<rparr>)"

definition current_bc_size :: "cstate \<Rightarrow> nat" where
  "current_bc_size st = length (bytes (current_bc st))"

subsection \<open>The emitter\<close>

text \<open>
  \<^verbatim>\<open>append_byte\<close> (compile.cpp:242).  When the buffer is full it is reallocated to
  64 bytes or to twice its capacity (a \<^verbatim>\<open>uint32_t\<close> product); then the byte is
  stored at index \<^verbatim>\<open>size\<close>.
\<close>

definition append_byte :: "byte \<Rightarrow> cstate \<Rightarrow> fault + cstate" where
  "append_byte b st =
     (let buf = current_bc st in
      if length (bytes buf) \<ge> unat (cap buf) then
        (let new_cap = (if cap buf = 0 then 64 else cap buf * 2) in
         if new_cap = 0 then Inl Undefined_Behaviour
         else if heap st = 0 then Inl (Failed OutOfMemory)
         else if length (bytes buf) \<ge> unat new_cap then Inl Undefined_Behaviour
         else Inr (set_current_bc \<lparr>bytes = bytes buf @ [b], cap = new_cap\<rparr>
                     (st\<lparr>heap := heap st - 1\<rparr>)))
      else Inr (set_current_bc (buf\<lparr>bytes := bytes buf @ [b]\<rparr>) st))"

text \<open>A run of \<^verbatim>\<open>append_byte\<close> calls, each checked, as the source writes them.\<close>

fun emit :: "byte list \<Rightarrow> cstate \<Rightarrow> fault + cstate" where
  "emit [] st = Inr st"
| "emit (b # bs) st = bindE (append_byte b st) (emit bs)"

definition i16_le :: "16 word \<Rightarrow> byte list" where
  "i16_le val = [ucast val, ucast (drop_bit 8 val)]"

definition i32_le :: "32 word \<Rightarrow> byte list" where
  "i32_le val = [ucast val, ucast (drop_bit 8 val), ucast (drop_bit 16 val),
                 ucast (drop_bit 24 val)]"

definition append_i16_le :: "16 word \<Rightarrow> cstate \<Rightarrow> fault + cstate" where
  "append_i16_le val st = emit (i16_le val) st"

definition append_i32_le :: "32 word \<Rightarrow> cstate \<Rightarrow> fault + cstate" where
  "append_i32_le val st = emit (i32_le val) st"

text \<open>
  \<^verbatim>\<open>backpatch_i16_le\<close> (compile.cpp:284) stores two bytes at \<^verbatim>\<open>pos\<close> and
  \<^verbatim>\<open>pos + 1\<close> with no bounds check.  A store below \<^verbatim>\<open>size\<close> changes the
  buffer; a store between \<^verbatim>\<open>size\<close> and the capacity lands in allocated memory that
  \<^verbatim>\<open>append_byte\<close> overwrites before it is ever read; a store beyond the capacity (or
  through a null buffer) is undefined.
\<close>

definition poke :: "nat \<Rightarrow> byte \<Rightarrow> Buffer \<Rightarrow> Buffer option" where
  "poke pos b buf =
     (if pos < length (bytes buf) then Some (buf\<lparr>bytes := (bytes buf)[pos := b]\<rparr>)
      else if pos < unat (cap buf) then Some buf
      else None)"

definition backpatch_i16_le :: "nat \<Rightarrow> 16 word \<Rightarrow> cstate \<Rightarrow> fault + cstate" where
  "backpatch_i16_le pos val st =
     (case poke pos (ucast val) (current_bc st) of
        None \<Rightarrow> Inl Undefined_Behaviour
      | Some b1 \<Rightarrow>
          (case poke (pos + 1) (ucast (drop_bit 8 val)) b1 of
             None \<Rightarrow> Inl Undefined_Behaviour
           | Some b2 \<Rightarrow> Inr (set_current_bc b2 st)))"

text \<open>
  Every branch offset of the source is \<^verbatim>\<open>(int16_t)(target - (patch_addr + 2))\<close>,
  computed in \<^verbatim>\<open>uint32_t\<close> and truncated to 16 bits.
\<close>

definition rel16 :: "nat \<Rightarrow> nat \<Rightarrow> 16 word" where
  "rel16 target patch_addr = ucast ((of_nat target :: 32 word) - (of_nat patch_addr + 2))"

subsection \<open>Control-flow keywords\<close>

text \<open>\<^verbatim>\<open>MAX_CONTROL_DEPTH\<close>, \<^verbatim>\<open>MAX_LEAVE_DEPTH\<close>, \<^verbatim>\<open>MAX_WORDS\<close>,
  \<^verbatim>\<open>MAX_WORD_NAME_LEN\<close> and \<^verbatim>\<open>MAX_TOKEN_LEN\<close> at their default values.\<close>

definition MAX_CONTROL_DEPTH :: nat where "MAX_CONTROL_DEPTH = 32"
definition MAX_LEAVE_DEPTH :: nat where "MAX_LEAVE_DEPTH = 8"
definition MAX_WORDS :: nat where "MAX_WORDS = 256"
definition MAX_WORD_NAME_LEN :: nat where "MAX_WORD_NAME_LEN = 64"
definition MAX_TOKEN_LEN :: nat where "MAX_TOKEN_LEN = 256"

definition emit_ops :: "platform \<Rightarrow> Op list \<Rightarrow> cstate \<Rightarrow> fault + cstate" where
  "emit_ops P ops st = emit (map (opcode P) ops) st"

text \<open>\<^verbatim>\<open>BEGIN\<close> (compile.cpp:635).  \<^verbatim>\<open>while_patch_addr\<close> is left as it was in the
  array slot; it is written by \<^verbatim>\<open>WHILE\<close> before \<^verbatim>\<open>REPEAT\<close> reads it.\<close>

definition kw_BEGIN :: "cstate \<Rightarrow> fault + cstate" where
  "kw_BEGIN st =
     (if length (control_stack st) \<ge> MAX_CONTROL_DEPTH then Inl (Failed ControlDepthExceeded)
      else Inr (st\<lparr>control_stack := BEGIN_CONTROL (current_bc_size st) 0 False # control_stack st\<rparr>))"

text \<open>\<^verbatim>\<open>DO\<close> (compile.cpp:652).\<close>

definition kw_DO :: "platform \<Rightarrow> cstate \<Rightarrow> fault + cstate" where
  "kw_DO P st =
     (if length (control_stack st) \<ge> MAX_CONTROL_DEPTH then Inl (Failed ControlDepthExceeded)
      else bindE (emit_ops P [Op_SWAP, Op_TOR, Op_TOR] st) (\<lambda>s1.
             Inr (s1\<lparr>control_stack := DO_CONTROL (current_bc_size s1) [] # control_stack s1\<rparr>)))"

text \<open>\<^verbatim>\<open>UNTIL\<close> (compile.cpp:685).\<close>

definition kw_UNTIL :: "platform \<Rightarrow> cstate \<Rightarrow> fault + cstate" where
  "kw_UNTIL P st =
     (case control_stack st of
        [] \<Rightarrow> Inl (Failed UntilWithoutBegin)
      | BEGIN_CONTROL begin_addr wp has_while # rest \<Rightarrow>
          if has_while then Inl (Failed UntilAfterWhile)
          else bindE (emit_ops P [Op_JZ] st) (\<lambda>s1.
               bindE (append_i16_le (rel16 begin_addr (current_bc_size s1)) s1) (\<lambda>s2.
               Inr (s2\<lparr>control_stack := rest\<rparr>)))
      | _ # rest \<Rightarrow> Inl (Failed UntilWithoutBegin))"

text \<open>\<^verbatim>\<open>WHILE\<close> (compile.cpp:726).\<close>

definition kw_WHILE :: "platform \<Rightarrow> cstate \<Rightarrow> fault + cstate" where
  "kw_WHILE P st =
     (case control_stack st of
        [] \<Rightarrow> Inl (Failed WhileWithoutBegin)
      | BEGIN_CONTROL begin_addr wp has_while # rest \<Rightarrow>
          if has_while then Inl (Failed DuplicateWhile)
          else bindE (emit_ops P [Op_JZ] st) (\<lambda>s1.
               let patch_pos = current_bc_size s1 in
               bindE (append_i16_le 0 s1) (\<lambda>s2.
               Inr (s2\<lparr>control_stack := BEGIN_CONTROL begin_addr patch_pos True # rest\<rparr>)))
      | _ # rest \<Rightarrow> Inl (Failed WhileWithoutBegin))"

text \<open>\<^verbatim>\<open>REPEAT\<close> (compile.cpp:766).\<close>

definition kw_REPEAT :: "platform \<Rightarrow> cstate \<Rightarrow> fault + cstate" where
  "kw_REPEAT P st =
     (case control_stack st of
        [] \<Rightarrow> Inl (Failed RepeatWithoutBegin)
      | BEGIN_CONTROL begin_addr while_patch_addr has_while # rest \<Rightarrow>
          if \<not> has_while then Inl (Failed RepeatWithoutWhile)
          else bindE (emit_ops P [Op_JMP] st) (\<lambda>s1.
               bindE (append_i16_le (rel16 begin_addr (current_bc_size s1)) s1) (\<lambda>s2.
               bindE (backpatch_i16_le while_patch_addr
                        (rel16 (current_bc_size s2) while_patch_addr) s2) (\<lambda>s3.
               Inr (s3\<lparr>control_stack := rest\<rparr>))))
      | _ # rest \<Rightarrow> Inl (Failed RepeatWithoutBegin))"

text \<open>\<^verbatim>\<open>AGAIN\<close> (compile.cpp:811).\<close>

definition kw_AGAIN :: "platform \<Rightarrow> cstate \<Rightarrow> fault + cstate" where
  "kw_AGAIN P st =
     (case control_stack st of
        [] \<Rightarrow> Inl (Failed AgainWithoutBegin)
      | BEGIN_CONTROL begin_addr wp has_while # rest \<Rightarrow>
          if has_while then Inl (Failed AgainAfterWhile)
          else bindE (emit_ops P [Op_JMP] st) (\<lambda>s1.
               bindE (append_i16_le (rel16 begin_addr (current_bc_size s1)) s1) (\<lambda>s2.
               Inr (s2\<lparr>control_stack := rest\<rparr>)))
      | _ # rest \<Rightarrow> Inl (Failed AgainWithoutBegin))"

text \<open>\<^verbatim>\<open>LEAVE\<close> (compile.cpp:852): the innermost \<^verbatim>\<open>DO\<close> frame, searched from the
  top of the stack, records the position of the jump.\<close>

fun find_do_frame :: "ControlFrame list \<Rightarrow> nat option" where
  "find_do_frame [] = None"
| "find_do_frame (DO_CONTROL a ls # fs) = Some 0"
| "find_do_frame (f # fs) = map_option Suc (find_do_frame fs)"

definition kw_LEAVE :: "platform \<Rightarrow> cstate \<Rightarrow> fault + cstate" where
  "kw_LEAVE P st =
     (case find_do_frame (control_stack st) of
        None \<Rightarrow> Inl (Failed LeaveWithoutDo)
      | Some i \<Rightarrow>
          (case control_stack st ! i of
             DO_CONTROL do_addr leaves \<Rightarrow>
               if length leaves \<ge> MAX_LEAVE_DEPTH then Inl (Failed LeaveDepthExceeded)
               else bindE (emit_ops P [Op_FROMR, Op_FROMR, Op_DROP, Op_DROP, Op_JMP] st) (\<lambda>s1.
                    let patch_pos = current_bc_size s1 in
                    bindE (append_i16_le 0 s1) (\<lambda>s2.
                    Inr (s2\<lparr>control_stack :=
                                (control_stack s2)[i := DO_CONTROL do_addr (leaves @ [patch_pos])]\<rparr>)))
           | _ \<Rightarrow> Inl (Failed LeaveWithoutDo)))"

text \<open>The loop that back-patches every recorded \<^verbatim>\<open>LEAVE\<close> to the current position.\<close>

fun backpatch_leaves :: "nat list \<Rightarrow> cstate \<Rightarrow> fault + cstate" where
  "backpatch_leaves [] st = Inr st"
| "backpatch_leaves (a # as) st =
     bindE (backpatch_i16_le a (rel16 (current_bc_size st) a) st) (backpatch_leaves as)"

text \<open>The common tail of \<^verbatim>\<open>LOOP\<close> and \<^verbatim>\<open>+LOOP\<close>, from the placeholder of the
  forward \<^verbatim>\<open>JZ\<close> on (compile.cpp:989 and 1094).\<close>

definition loop_tail :: "platform \<Rightarrow> nat \<Rightarrow> nat list \<Rightarrow> ControlFrame list \<Rightarrow> cstate \<Rightarrow> fault + cstate" where
  "loop_tail P do_addr leaves rest s1 =
     (let jz_patch_pos = current_bc_size s1 in
      bindE (append_i16_le 0 s1) (\<lambda>s2.
      bindE (emit_ops P [Op_SWAP, Op_TOR, Op_TOR, Op_JMP] s2) (\<lambda>s3.
      bindE (append_i16_le (rel16 do_addr (current_bc_size s3)) s3) (\<lambda>s4.
      bindE (backpatch_i16_le jz_patch_pos (rel16 (current_bc_size s4) jz_patch_pos) s4) (\<lambda>s5.
      bindE (emit_ops P [Op_DROP, Op_DROP] s5) (\<lambda>s6.
      bindE (backpatch_leaves leaves s6) (\<lambda>s7.
      Inr (s7\<lparr>control_stack := rest\<rparr>))))))))"

text \<open>\<^verbatim>\<open>LOOP\<close> (compile.cpp:928).\<close>

definition kw_LOOP :: "platform \<Rightarrow> cstate \<Rightarrow> fault + cstate" where
  "kw_LOOP P st =
     (case control_stack st of
        [] \<Rightarrow> Inl (Failed LoopWithoutDo)
      | DO_CONTROL do_addr leaves # rest \<Rightarrow>
          bindE (emit_ops P [Op_FROMR, Op_LIT] st) (\<lambda>s1.
          bindE (append_i32_le 1 s1) (\<lambda>s2.
          bindE (emit_ops P [Op_ADD, Op_FROMR, Op_OVER, Op_OVER, Op_LT, Op_JZ] s2)
            (loop_tail P do_addr leaves rest)))
      | _ # rest \<Rightarrow> Inl (Failed LoopWithoutDo))"

text \<open>\<^verbatim>\<open>+LOOP\<close> (compile.cpp:1042).\<close>

definition kw_PLOOP :: "platform \<Rightarrow> cstate \<Rightarrow> fault + cstate" where
  "kw_PLOOP P st =
     (case control_stack st of
        [] \<Rightarrow> Inl (Failed PLoopWithoutDo)
      | DO_CONTROL do_addr leaves # rest \<Rightarrow>
          bindE (emit_ops P [Op_FROMR, Op_ADD, Op_FROMR, Op_OVER, Op_OVER, Op_LT, Op_JZ] st)
            (loop_tail P do_addr leaves rest)
      | _ # rest \<Rightarrow> Inl (Failed PLoopWithoutDo))"

text \<open>\<^verbatim>\<open>IF\<close> (compile.cpp:1145).\<close>

definition kw_IF :: "platform \<Rightarrow> cstate \<Rightarrow> fault + cstate" where
  "kw_IF P st =
     (if length (control_stack st) \<ge> MAX_CONTROL_DEPTH then Inl (Failed ControlDepthExceeded)
      else bindE (emit_ops P [Op_JZ] st) (\<lambda>s1.
           let patch_pos = current_bc_size s1 in
           bindE (append_i16_le 0 s1) (\<lambda>s2.
           Inr (s2\<lparr>control_stack := IF_CONTROL patch_pos 0 False # control_stack s2\<rparr>))))"

text \<open>\<^verbatim>\<open>ELSE\<close> (compile.cpp:1174).\<close>

definition kw_ELSE :: "platform \<Rightarrow> cstate \<Rightarrow> fault + cstate" where
  "kw_ELSE P st =
     (case control_stack st of
        [] \<Rightarrow> Inl (Failed ElseWithoutIf)
      | IF_CONTROL jz_patch_addr jp has_else # rest \<Rightarrow>
          if has_else then Inl (Failed DuplicateElse)
          else bindE (emit_ops P [Op_JMP] st) (\<lambda>s1.
               let jmp_patch_pos = current_bc_size s1 in
               bindE (append_i16_le 0 s1) (\<lambda>s2.
               bindE (backpatch_i16_le jz_patch_addr
                        (rel16 (current_bc_size s2) jz_patch_addr) s2) (\<lambda>s3.
               Inr (s3\<lparr>control_stack := IF_CONTROL jz_patch_addr jmp_patch_pos True # rest\<rparr>))))
      | _ # rest \<Rightarrow> Inl (Failed ElseWithoutIf))"

text \<open>\<^verbatim>\<open>THEN\<close> (compile.cpp:1218).\<close>

definition kw_THEN :: "cstate \<Rightarrow> fault + cstate" where
  "kw_THEN st =
     (case control_stack st of
        [] \<Rightarrow> Inl (Failed ThenWithoutIf)
      | IF_CONTROL jz_patch_addr jmp_patch_addr has_else # rest \<Rightarrow>
          (let s1 = st\<lparr>control_stack := rest\<rparr> in
           if has_else
           then backpatch_i16_le jmp_patch_addr (rel16 (current_bc_size s1) jmp_patch_addr) s1
           else backpatch_i16_le jz_patch_addr (rel16 (current_bc_size s1) jz_patch_addr) s1)
      | _ # rest \<Rightarrow> Inl (Failed ThenWithoutIf))"

text \<open>\<^verbatim>\<open>RECURSE\<close> (compile.cpp:1562): a call to the index the pending word will get.\<close>

definition kw_RECURSE :: "platform \<Rightarrow> cstate \<Rightarrow> fault + cstate" where
  "kw_RECURSE P st =
     (if \<not> in_definition st then Inl (Failed RecurseOutsideWord)
      else emit (opcode P Op_CALL # i16_le (of_nat (length (word_dict st)))) st)"

subsection \<open>Definitions, operands, word lookup\<close>

definition keep :: "string \<Rightarrow> fault + cstate \<Rightarrow> fault + (string \<times> cstate)" where
  "keep p r = (case r of Inl e \<Rightarrow> Inl e | Inr st \<Rightarrow> Inr (p, st))"

text \<open>
  \<^verbatim>\<open>handle_colon_start\<close> (compile.cpp:403) reads the next token of the source as
  the name; \<open>p\<close> is the source after the \<^verbatim>\<open>:\<close> token, and the result carries the
  source after the name.
\<close>

definition handle_colon_start :: "string \<Rightarrow> cstate \<Rightarrow> fault + (string \<times> cstate)" where
  "handle_colon_start p st =
     (if in_definition st then Inl (Failed NestedColon)
      else
        (let p1 = dropWhile isspace p in
         if p1 = [] then Inl (Failed ColonWithoutName)
         else
           (let nm = takeWhile (\<lambda>c. \<not> isspace c) p1;
                p2 = dropWhile (\<lambda>c. \<not> isspace c) p1 in
            if length nm = 0 \<or> length nm \<ge> MAX_WORD_NAME_LEN then Inl (Failed ColonWithoutName)
            else if \<exists>e \<in> set (word_dict st). str_eq_ci (name e) nm
              then Inl (Failed DuplicateWord)
            else if length (word_dict st) \<ge> MAX_WORDS then Inl (Failed DictionaryFull)
            else Inr (p2, st\<lparr>in_definition := True, current_word_name := nm,
                             word_bc := empty_buffer\<rparr>))))"

text \<open>\<^verbatim>\<open>handle_semicolon_end\<close> (compile.cpp:477).\<close>

definition handle_semicolon_end :: "platform \<Rightarrow> cstate \<Rightarrow> fault + cstate" where
  "handle_semicolon_end P st =
     (if \<not> in_definition st then Inl (Failed SemicolonWithoutColon)
      else bindE (append_byte (opcode P Op_RET) st) (\<lambda>s1.
           Inr (s1\<lparr>word_dict := word_dict s1 @
                       [\<lparr>name = take (MAX_WORD_NAME_LEN - 1) (current_word_name s1),
                         code = bytes (word_bc s1)\<rparr>],
                    in_definition := False, current_word_name := [],
                    word_bc := empty_buffer\<rparr>)))"

text \<open>
  \<^verbatim>\<open>SYS\<close>, \<^verbatim>\<open>L++\<close>, \<^verbatim>\<open>L--\<close>, \<^verbatim>\<open>L@\<close>, \<^verbatim>\<open>L!\<close> and
  \<^verbatim>\<open>L>!\<close> (compile.cpp:1260--1561) are six copies of one block that differ in the
  opcode and in the two error codes: skip white space, fail if the source has ended, cut
  the next token (at most 255 characters of it), parse it, check the range, emit the
  opcode and the operand byte.
\<close>

definition operand_keyword ::
  "platform \<Rightarrow> Op \<Rightarrow> FrontErr \<Rightarrow> FrontErr \<Rightarrow> string \<Rightarrow> cstate \<Rightarrow> fault + (string \<times> cstate)" where
  "operand_keyword P op missing invalid p st =
     (let p1 = dropWhile isspace p in
      if p1 = [] then Inl (Failed missing)
      else
        (let id_token = take (MAX_TOKEN_LEN - 1) (takeWhile (\<lambda>c. \<not> isspace c) p1);
             p2 = dropWhile (\<lambda>c. \<not> isspace c) p1 in
         case try_parse_int (long_bits P) id_token of
           None \<Rightarrow> Inl (Failed invalid)
         | Some v \<Rightarrow>
             if sint v < 0 \<or> sint v > 255 then Inl (Failed invalid)
             else keep p2 (emit [opcode P op, ucast v] st)))"

text \<open>The search of the local word table (compile.cpp:1595): the first entry whose name
  equals the token, ignoring case.\<close>

fun find_local_word :: "string \<Rightarrow> WordDefEntry list \<Rightarrow> nat option" where
  "find_local_word token [] = None"
| "find_local_word token (e # es) =
     (if str_eq_ci token (name e) then Some 0 else map_option Suc (find_local_word token es))"

text \<open>\<^verbatim>\<open>V4FrontContext\<close> and \<^verbatim>\<open>v4front_context_find_word\<close> (compile.cpp:2308);
  a null context is \<open>None\<close>.\<close>

record ContextWordEntry =
  ctx_name :: string
  vm_word_idx :: int

type_synonym V4FrontContext = "ContextWordEntry list"

fun context_find :: "ContextWordEntry list \<Rightarrow> string \<Rightarrow> int" where
  "context_find [] nm = -1"
| "context_find (e # es) nm = (if str_eq_ci (ctx_name e) nm then vm_word_idx e else context_find es nm)"

definition v4front_context_find_word :: "V4FrontContext option \<Rightarrow> string \<Rightarrow> int" where
  "v4front_context_find_word ctx nm = (case ctx of None \<Rightarrow> -1 | Some ws \<Rightarrow> context_find ws nm)"

text \<open>The block "Try looking up word in dictionary" (compile.cpp:1590): the value of
  \<^verbatim>\<open>word_idx\<close> after both searches.\<close>

definition lookup_word_idx :: "V4FrontContext option \<Rightarrow> string \<Rightarrow> cstate \<Rightarrow> int" where
  "lookup_word_idx ctx token st =
     (case find_local_word token (word_dict st) of
        Some i \<Rightarrow> int i
      | None \<Rightarrow>
          (case ctx of
             None \<Rightarrow> -1
           | Some ws \<Rightarrow>
               (let vm_idx = v4front_context_find_word ctx token in
                if vm_idx \<ge> 0 then vm_idx else -1)))"

subsection \<open>Composite words and the primitive table\<close>

text \<open>
  \<^verbatim>\<open>J\<close>, \<^verbatim>\<open>K\<close> and the composite words (compile.cpp:1646--2031): an
  if-chain in which every branch appends a fixed run of bytes.  \<open>composite\<close> gives the
  run of the first branch that matches.
\<close>

definition emit_rot_instruction :: "Op list" where
  "emit_rot_instruction = [Op_TOR, Op_SWAP, Op_FROMR, Op_SWAP]"

definition composite :: "platform \<Rightarrow> string \<Rightarrow> byte list option" where
  "composite P token =
     (let opc = opcode P; ops = map (opcode P) in
      if str_eq_ci token ''J'' then
        Some (ops [Op_FROMR, Op_FROMR, Op_FROMR, Op_DUP, Op_TOR, Op_TOR, Op_TOR])
      else if str_eq_ci token ''K'' then
        Some (ops [Op_FROMR, Op_FROMR, Op_FROMR, Op_FROMR, Op_FROMR, Op_DUP,
                   Op_TOR, Op_TOR, Op_TOR, Op_TOR, Op_TOR])
      else if str_eq_ci token ''ROT'' then Some (ops [Op_TOR, Op_SWAP, Op_FROMR, Op_SWAP])
      else if str_eq_ci token ''NIP'' then Some (ops [Op_SWAP, Op_DROP])
      else if str_eq_ci token ''TUCK'' then Some (ops [Op_SWAP, Op_OVER])
      else if str_eq_ci token ''NEGATE'' then Some (ops [Op_LIT0, Op_SWAP, Op_SUB])
      else if str_eq_ci token ''?DUP'' then
        Some ([opc Op_DUP, opc Op_DUP, opc Op_JZ, 1, 0, opc Op_DUP])
      else if str_eq_ci token ''ABS'' then
        Some ([opc Op_DUP, opc Op_LIT0, opc Op_LT, opc Op_JZ, 3, 0,
               opc Op_LIT0, opc Op_SWAP, opc Op_SUB])
      else if str_eq_ci token ''MIN'' then
        Some ([opc Op_OVER, opc Op_OVER, opc Op_LT, opc Op_JZ, 4, 0, opc Op_DROP,
               opc Op_JMP, 2, 0, opc Op_SWAP, opc Op_DROP])
      else if str_eq_ci token ''MAX'' then
        Some ([opc Op_OVER, opc Op_OVER, opc Op_GT, opc Op_JZ, 4, 0, opc Op_DROP,
               opc Op_JMP, 2, 0, opc Op_SWAP, opc Op_DROP])
      else if str_eq_ci token ''0='' then Some (ops [Op_LIT0, Op_EQ])
      else if str_eq_ci token ''0<'' then Some (ops [Op_LIT0, Op_LT])
      else if str_eq_ci token ''0>'' then Some (ops [Op_LIT0, Op_GT])
      else if str_eq_ci token ''2DUP'' then Some (ops [Op_OVER, Op_OVER])
      else if str_eq_ci token ''2DROP'' then Some (ops [Op_DROP, Op_DROP])
      else if str_eq_ci token ''2SWAP'' then
        Some (ops (emit_rot_instruction @ [Op_TOR] @ emit_rot_instruction @ [Op_FROMR]))
      else if str_eq_ci token ''2OVER'' then
        Some (ops ([Op_TOR, Op_TOR, Op_OVER, Op_OVER, Op_FROMR, Op_FROMR] @
                   emit_rot_instruction @ [Op_TOR] @ emit_rot_instruction @ [Op_FROMR]))
      else if str_eq_ci token ''+!'' then
        Some (ops [Op_DUP, Op_TOR, Op_LOAD, Op_ADD, Op_FROMR, Op_STORE])
      else if str_eq_ci token ''TRUE'' then Some (ops [Op_LITN1])
      else if str_eq_ci token ''FALSE'' then Some (ops [Op_LIT0])
      else None)"

text \<open>\<^verbatim>\<open>OPCODE_TABLE\<close> (compile.cpp:56): token, opcode, case-sensitive flag.\<close>

definition OPCODE_TABLE :: "(string \<times> Op \<times> bool) list" where
  "OPCODE_TABLE =
    [(''DUP'', Op_DUP, False), (''DROP'', Op_DROP, False), (''SWAP'', Op_SWAP, False),
     (''OVER'', Op_OVER, False),
     (''>R'', Op_TOR, False), (''R>'', Op_FROMR, False), (''R@'', Op_RFETCH, False),
     (''I'', Op_RFETCH, False),
     (''+'', Op_ADD, True), (''-'', Op_SUB, True), (''*'', Op_MUL, True), (''/'', Op_DIV, True),
     (''MOD'', Op_MOD, False), (''1+'', Op_INC, False), (''1-'', Op_DEC, False),
     (''U/'', Op_DIVU, False), (''UMOD'', Op_MODU, False),
     (''='', Op_EQ, True), (''=='', Op_EQ, True), (''<>'', Op_NE, True), (''!='', Op_NE, True),
     (''<'', Op_LT, True), (''<='', Op_LE, True), (''>'', Op_GT, True), (''>='', Op_GE, True),
     (''U<'', Op_LTU, False), (''U<='', Op_LEU, False),
     (''AND'', Op_AND, False), (''OR'', Op_OR, False), (''XOR'', Op_XOR, False),
     (''INVERT'', Op_INVERT, False), (''LSHIFT'', Op_SHL, False), (''RSHIFT'', Op_SHR, False),
     (''ARSHIFT'', Op_SAR, False),
     (''@'', Op_LOAD, True), (''!'', Op_STORE, True), (''C@'', Op_LOAD8U, False),
     (''C!'', Op_STORE8, False), (''W@'', Op_LOAD16U, False), (''W!'', Op_STORE16, False),
     (''L@0'', Op_LGET0, False), (''L@1'', Op_LGET1, False), (''L!0'', Op_LSET0, False),
     (''L!1'', Op_LSET1, False)]"

text \<open>\<^verbatim>\<open>lookup_simple_opcode\<close> (compile.cpp:120).\<close>

fun lookup_in_table :: "(string \<times> Op \<times> bool) list \<Rightarrow> string \<Rightarrow> Op option" where
  "lookup_in_table [] token = None"
| "lookup_in_table ((entry, op, case_sensitive) # es) token =
     (if (if case_sensitive then token = entry else str_eq_ci token entry) then Some op
      else lookup_in_table es token)"

definition lookup_simple_opcode :: "string \<Rightarrow> Op option" where
  "lookup_simple_opcode token = lookup_in_table OPCODE_TABLE token"

subsection \<open>The token loop\<close>

text \<open>
  One iteration of the \<^verbatim>\<open>while (*p)\<close> loop of \<^verbatim>\<open>compile_internal\<close> after the
  token has been cut (compile.cpp:612--2047): \<open>token\<close> is the token, \<open>p\<close> the source
  after it.  The result is the source position and the state at the \<^verbatim>\<open>continue\<close>, or
  the error of the \<^verbatim>\<open>CLEANUP_AND_RETURN\<close>.  The branches are in the order of the source.
\<close>

definition dispatch ::
  "platform \<Rightarrow> V4FrontContext option \<Rightarrow> string \<Rightarrow> string \<Rightarrow> cstate \<Rightarrow> fault + (string \<times> cstate)" where
  "dispatch P ctx token p st =
     (if str_eq_ci token '':'' then handle_colon_start p st
      else if str_eq_ci token '';'' then keep p (handle_semicolon_end P st)
      else if str_eq_ci token ''BEGIN'' then keep p (kw_BEGIN st)
      else if str_eq_ci token ''DO'' then keep p (kw_DO P st)
      else if str_eq_ci token ''UNTIL'' then keep p (kw_UNTIL P st)
      else if str_eq_ci token ''WHILE'' then keep p (kw_WHILE P st)
      else if str_eq_ci token ''REPEAT'' then keep p (kw_REPEAT P st)
      else if str_eq_ci token ''AGAIN'' then keep p (kw_AGAIN P st)
      else if str_eq_ci token ''LEAVE'' then keep p (kw_LEAVE P st)
      else if str_eq_ci token ''LOOP'' then keep p (kw_LOOP P st)
      else if str_eq_ci token ''+LOOP'' then keep p (kw_PLOOP P st)
      else if str_eq_ci token ''IF'' then keep p (kw_IF P st)
      else if str_eq_ci token ''ELSE'' then keep p (kw_ELSE P st)
      else if str_eq_ci token ''THEN'' then keep p (kw_THEN st)
      else if str_eq_ci token ''EXIT'' then keep p (emit_ops P [Op_RET] st)
      else if str_eq_ci token ''SYS'' then operand_keyword P Op_SYS MissingSysId InvalidSysId p st
      else if str_eq_ci token ''EMIT'' then keep p (emit [opcode P Op_SYS, 0x30] st)
      else if str_eq_ci token ''KEY'' then keep p (emit [opcode P Op_SYS, 0x31] st)
      else if str_eq_ci token ''L++'' then
        operand_keyword P Op_LINC MissingLocalIdx InvalidLocalIdx p st
      else if str_eq_ci token ''L--'' then
        operand_keyword P Op_LDEC MissingLocalIdx InvalidLocalIdx p st
      else if str_eq_ci token ''L@'' then
        operand_keyword P Op_LGET MissingLocalIdx InvalidLocalIdx p st
      else if str_eq_ci token ''L!'' then
        operand_keyword P Op_LSET MissingLocalIdx InvalidLocalIdx p st
      else if str_eq_ci token ''L>!'' then
        operand_keyword P Op_LTEE MissingLocalIdx InvalidLocalIdx p st
      else if str_eq_ci token ''RECURSE'' then keep p (kw_RECURSE P st)
      else
        (let word_idx = lookup_word_idx ctx token st in
         if word_idx \<ge> 0 then
           keep p (emit (opcode P Op_CALL # i16_le (word_of_int word_idx)) st)
         else
           (case try_parse_int (long_bits P) token of
              Some val \<Rightarrow> keep p (emit (opcode P Op_LIT # i32_le val) st)
            | None \<Rightarrow>
                (case composite P token of
                   Some bs \<Rightarrow> keep p (emit bs st)
                 | None \<Rightarrow>
                     (case lookup_simple_opcode token of
                        Some op \<Rightarrow> keep p (emit [opcode P op] st)
                      | None \<Rightarrow> Inl (Failed UnknownToken))))))"

subsection \<open>The output structure and the end of the compilation\<close>

text \<open>A pointer of the output structure: null, pointing to live memory, or pointing to
  memory that has been freed.\<close>

datatype 'a pointer = Null | Ptr 'a | Dangling

record V4FrontWord =
  w_name :: string
  w_code :: "byte list"
  w_code_len :: nat

record V4FrontBuf =
  words :: "V4FrontWord list pointer"
  word_count :: nat
  data :: "byte list pointer"
  size_of_data :: nat

definition zero_buf :: V4FrontBuf where
  "zero_buf = \<lparr>words = Null, word_count = 0, data = Null, size_of_data = 0\<rparr>"

definition buffer_pointer :: "Buffer \<Rightarrow> byte list pointer" where
  "buffer_pointer b = (if cap b = 0 then Null else Ptr (bytes b))"

text \<open>The copy loop of the word-table transfer (compile.cpp:2084): one
  \<^verbatim>\<open>strdup\<close> per word; \<open>None\<close> when one of them fails.\<close>

fun copy_words :: "nat \<Rightarrow> WordDefEntry list \<Rightarrow> (nat \<times> V4FrontWord list) option" where
  "copy_words h [] = Some (h, [])"
| "copy_words h (e # es) =
     (if h = 0 then None
      else (case copy_words (h - 1) es of
              None \<Rightarrow> None
            | Some (h', ws) \<Rightarrow>
                Some (h', \<lparr>w_name = name e, w_code = code e, w_code_len = length (code e)\<rparr> # ws)))"

text \<open>
  The code after the token loop (compile.cpp:2050--2135).  The result carries the output
  structure as the function leaves it, on failure too: the structure is written before the
  last \<^verbatim>\<open>append_byte\<close>.
\<close>

definition trailing_ret :: "platform \<Rightarrow> V4FrontBuf \<Rightarrow> cstate \<Rightarrow> (fault \<times> V4FrontBuf) + V4FrontBuf" where
  "trailing_ret P out st =
     (let n = current_bc_size st;
          needs_ret = \<not> (n \<ge> 3 \<and> bytes (current_bc st) ! (n - 3) = opcode P Op_JMP) in
      if needs_ret then
        (case append_byte (opcode P Op_RET) st of
           Inl e \<Rightarrow> Inl (e, out)
         | Inr s1 \<Rightarrow> Inr (out\<lparr>data := buffer_pointer (bc s1),
                               size_of_data := length (bytes (bc s1))\<rparr>))
      else Inr (out\<lparr>data := buffer_pointer (bc st), size_of_data := length (bytes (bc st))\<rparr>))"

definition finish :: "platform \<Rightarrow> cstate \<Rightarrow> (fault \<times> V4FrontBuf) + V4FrontBuf" where
  "finish P st =
     (case control_stack st of
        IF_CONTROL a b c # rest \<Rightarrow> Inl (Failed UnclosedIf, zero_buf)
      | DO_CONTROL a ls # rest \<Rightarrow> Inl (Failed UnclosedDo, zero_buf)
      | BEGIN_CONTROL a b c # rest \<Rightarrow> Inl (Failed UnclosedBegin, zero_buf)
      | [] \<Rightarrow>
          if in_definition st then Inl (Failed UnclosedColon, zero_buf)
          else if length (word_dict st) > 0 then
            (if heap st = 0 then Inl (Failed OutOfMemory, zero_buf)
             else
               (case copy_words (heap st - 1) (word_dict st) of
                  None \<Rightarrow> Inl (Failed OutOfMemory, zero_buf\<lparr>words := Dangling\<rparr>)
                | Some (h, ws) \<Rightarrow>
                    trailing_ret P (zero_buf\<lparr>words := Ptr ws, word_count := length (word_dict st)\<rparr>)
                      (st\<lparr>heap := h\<rparr>)))
          else trailing_ret P zero_buf st)"

text \<open>The token loop (compile.cpp:594): skip white space, stop at the end of the source,
  cut the token (at most 255 characters are compared), dispatch.\<close>

function compile_loop ::
  "platform \<Rightarrow> V4FrontContext option \<Rightarrow> string \<Rightarrow> cstate \<Rightarrow> (fault \<times> V4FrontBuf) + V4FrontBuf" where
  "compile_loop P ctx p st =
     (let p1 = dropWhile isspace p in
      if p1 = [] then finish P st
      else
        (let token = take (MAX_TOKEN_LEN - 1) (takeWhile (\<lambda>c. \<not> isspace c) p1);
             p2 = dropWhile (\<lambda>c. \<not> isspace c) p1 in
         case dispatch P ctx token p2 st of
           Inl e \<Rightarrow> Inl (e, zero_buf)
         | Inr (p3, st') \<Rightarrow> compile_loop P ctx p3 st'))"
  by pat_completeness auto
termination
proof (relation "measure (\<lambda>(P, ctx, p, st). length p)")
  show "wf (measure (\<lambda>(P, ctx, p, st). length p))" by simp
next
  fix P :: platform and ctx :: "V4FrontContext option" and p :: string and st :: cstate
    and p1 token p2 x p3 st'
  assume p1: "p1 = dropWhile isspace p" and ne: "p1 \<noteq> []"
    and p2: "p2 = dropWhile (\<lambda>c. \<not> isspace c) p1"
    and d: "dispatch P ctx token p2 st = Inr x" and x: "(p3, st') = x"
  have two: "length (dropWhile (\<lambda>c. \<not> isspace c) (dropWhile isspace q)) \<le> length q" for q
    by (meson length_dropWhile_le order_trans)
  have operand: "length q' \<le> length q"
    if "operand_keyword P op e1 e2 q s = Inr (q', s')" for op e1 e2 q s q' s'
    using that two[of q]
    by (auto simp: operand_keyword_def Let_def keep_def split: if_splits option.splits sum.splits)
  have colon: "length q' \<le> length q" if "handle_colon_start q s = Inr (q', s')" for q s q' s'
    using that two[of q] by (auto simp: handle_colon_start_def Let_def split: if_splits)
  have kept: "q' = q" if "keep q r = Inr (q', s')" for q r q' s'
    using that by (auto simp: keep_def split: sum.splits)
  from d x have "length p3 \<le> length p2"
    unfolding dispatch_def Let_def
    by (auto split: if_splits option.splits dest: kept operand colon)
  moreover from ne have "\<not> isspace (hd p1)" unfolding p1 using hd_dropWhile by blast
  with ne have "length p2 < length p1"
    unfolding p2 by (cases p1) (auto intro: le_imp_less_Suc length_dropWhile_le)
  moreover have "length p1 \<le> length p" unfolding p1 by (rule length_dropWhile_le)
  ultimately show "((P, ctx, p3, st'), (P, ctx, p, st)) \<in> measure (\<lambda>(P, ctx, p, st). length p)"
    by simp
qed

declare compile_loop.simps [simp del]

text \<open>
  \<^verbatim>\<open>compile_internal\<close> (compile.cpp:525).  \<open>source\<close> is \<open>None\<close> for a null
  pointer; \<open>heap0\<close> is the number of allocations the allocator will grant.  \<open>Inr out\<close>
  is the return of \<^verbatim>\<open>FrontErr::OK\<close> with the output structure \<open>out\<close>; \<open>Inl (e, out)\<close>
  is a failure and the output structure it leaves behind.
\<close>

definition empty_input :: "platform \<Rightarrow> nat \<Rightarrow> (fault \<times> V4FrontBuf) + V4FrontBuf" where
  "empty_input P heap0 =
     (case append_byte (opcode P Op_RET) (init_state heap0) of
        Inl e \<Rightarrow> Inl (e, zero_buf)
      | Inr s1 \<Rightarrow> Inr (zero_buf\<lparr>data := buffer_pointer (bc s1),
                                size_of_data := length (bytes (bc s1))\<rparr>))"

definition compile_internal ::
  "platform \<Rightarrow> V4FrontContext option \<Rightarrow> nat \<Rightarrow> string option \<Rightarrow> (fault \<times> V4FrontBuf) + V4FrontBuf" where
  "compile_internal P ctx heap0 source =
     (case source of
        None \<Rightarrow> empty_input P heap0
      | Some s \<Rightarrow>
          if c_str s = [] then empty_input P heap0
          else compile_loop P ctx (c_str s) (init_state heap0))"

text \<open>\<^verbatim>\<open>v4front_compile\<close> (compile.cpp:2147) for a non-null \<^verbatim>\<open>out_buf\<close>: the
  compilation without a context.\<close>

definition v4front_compile :: "platform \<Rightarrow> nat \<Rightarrow> string option \<Rightarrow> (fault \<times> V4FrontBuf) + V4FrontBuf" where
  "v4front_compile P heap0 source = compile_internal P None heap0 source"

text \<open>
  \<^verbatim>\<open>v4front_free\<close> (compile.cpp:2176) for a non-null argument: the number of blocks
  it releases and the structure afterwards, or \<open>None\<close> when it frees a dangling pointer.
\<close>

definition v4front_free :: "V4FrontBuf \<Rightarrow> (nat \<times> V4FrontBuf) option" where
  "v4front_free buf =
     (case words buf of
        Dangling \<Rightarrow> None
      | Ptr ws \<Rightarrow>
          (case data buf of
             Dangling \<Rightarrow> None
           | Ptr d \<Rightarrow> Some (2 * word_count buf + 2, zero_buf)
           | Null \<Rightarrow> Some (2 * word_count buf + 1, buf\<lparr>words := Null, word_count := 0\<rparr>))
      | Null \<Rightarrow>
          (case data buf of
             Dangling \<Rightarrow> None
           | Ptr d \<Rightarrow> Some (1, buf\<lparr>data := Null, size_of_data := 0\<rparr>)
           | Null \<Rightarrow> Some (0, buf)))"

subsection \<open>The bytecode file\<close>

text \<open>
  \<^verbatim>\<open>V4BytecodeHeader\<close> (compile.h) and its 16-byte image in the file.  The source
  writes the structure as it lies in memory; the fields are naturally aligned, and the
  image is the one of a little-endian machine.
\<close>

definition V4B_MAGIC :: "byte list" where
  "V4B_MAGIC = [0x56, 0x34, 0x42, 0x43]"

definition V4B_VERSION_MAJOR :: byte where "V4B_VERSION_MAJOR = 0"
definition V4B_VERSION_MINOR :: byte where "V4B_VERSION_MINOR = 1"

record V4BytecodeHeader =
  magic :: "byte list"
  version_major :: byte
  version_minor :: byte
  flags :: "16 word"
  code_size :: "32 word"
  reserved :: "32 word"

definition header_image :: "V4BytecodeHeader \<Rightarrow> byte list" where
  "header_image h = take 4 (magic h) @ [version_major h, version_minor h] @ i16_le (flags h)
                    @ i32_le (code_size h) @ i32_le (reserved h)"

definition le16 :: "byte list \<Rightarrow> 16 word" where
  "le16 bs = ucast (bs ! 0) OR push_bit 8 (ucast (bs ! 1))"

definition le32 :: "byte list \<Rightarrow> 32 word" where
  "le32 bs = ucast (bs ! 0) OR push_bit 8 (ucast (bs ! 1)) OR push_bit 16 (ucast (bs ! 2))
             OR push_bit 24 (ucast (bs ! 3))"

text \<open>The header read from the first 16 bytes of a file (\<open>length bs \<ge> 16\<close>).\<close>

definition header_of_image :: "byte list \<Rightarrow> V4BytecodeHeader" where
  "header_of_image bs =
     \<lparr>magic = take 4 bs, version_major = bs ! 4, version_minor = bs ! 5,
      flags = le16 (take 2 (drop 6 bs)), code_size = le32 (take 4 (drop 8 bs)),
      reserved = le32 (take 4 (drop 12 bs))\<rparr>"

text \<open>
  \<^verbatim>\<open>v4front_save_bytecode\<close> (bytecode\_io.cpp:14).  \<open>buf\<close> and \<open>filename\<close> are
  \<open>None\<close> for null pointers; \<open>room\<close> is \<open>None\<close> when the file cannot be opened for
  writing, else the number of bytes the device accepts.  The result is the negative return
  code, or the contents of the file when the function returns 0.
\<close>

definition v4front_save_bytecode ::
  "V4FrontBuf option \<Rightarrow> string option \<Rightarrow> nat option \<Rightarrow> int + byte list" where
  "v4front_save_bytecode buf filename room =
     (case (buf, filename) of
        (Some b, Some fn) \<Rightarrow>
          (case data b of
             Ptr d \<Rightarrow>
               if size_of_data b = 0 then Inl (-1)
               else
                 (case room of
                    None \<Rightarrow> Inl (-2)
                  | Some r \<Rightarrow>
                      (let header = \<lparr>magic = V4B_MAGIC, version_major = V4B_VERSION_MAJOR,
                                     version_minor = V4B_VERSION_MINOR, flags = 0,
                                     code_size = of_nat (size_of_data b), reserved = 0\<rparr> in
                       if r < 16 then Inl (-3)
                       else if r - 16 < size_of_data b then Inl (-4)
                       else Inr (header_image header @ take (size_of_data b) d)))
           | _ \<Rightarrow> Inl (-1))
      | _ \<Rightarrow> Inl (-1))"

text \<open>
  \<^verbatim>\<open>v4front_load_bytecode\<close> (bytecode\_io.cpp:59).  \<open>file\<close> is \<open>None\<close> when the
  file cannot be opened, else its contents; \<open>heap0\<close> is the number of allocations that
  succeed.  The result is the negative return code, or the output buffer on return 0.
\<close>

definition v4front_load_bytecode ::
  "string option \<Rightarrow> byte list option \<Rightarrow> nat \<Rightarrow> int + V4FrontBuf" where
  "v4front_load_bytecode filename file heap0 =
     (case filename of
        None \<Rightarrow> Inl (-1)
      | Some fn \<Rightarrow>
          (case file of
             None \<Rightarrow> Inl (-2)
           | Some contents \<Rightarrow>
               if length contents < 16 then Inl (-3)
               else
                 (let header = header_of_image (take 16 contents) in
                  if magic header \<noteq> V4B_MAGIC then Inl (-4)
                  else if heap0 = 0 then Inl (-5)
                  else if length (drop 16 contents) < unat (code_size header) then Inl (-6)
                  else Inr \<lparr>words = Null, word_count = 0,
                            data = Ptr (take (unat (code_size header)) (drop 16 contents)),
                            size_of_data = unat (code_size header)\<rparr>)))"

subsection \<open>A concrete platform\<close>

text \<open>
  Modelled from the spec: the opcode numbering of \<^verbatim>\<open>v4/opcodes.def\<close>, a header of
  the VM that the repository includes and does not contain.  Section 8 of the spec numbers
  \<^verbatim>\<open>LIT\<close>, \<^verbatim>\<open>DUP\<close>, \<^verbatim>\<open>ADD\<close>, \<^verbatim>\<open>JMP\<close>, \<^verbatim>\<open>JZ\<close>, \<^verbatim>\<open>CALL\<close>,
  \<^verbatim>\<open>RET\<close>, \<^verbatim>\<open>SYS\<close>, \<^verbatim>\<open>LGET0\<close>, \<^verbatim>\<open>LSET1\<close> and \<^verbatim>\<open>LINC\<close>; the comments of
  the tests number \<^verbatim>\<open>LGET\<close>, \<^verbatim>\<open>LSET\<close>, \<^verbatim>\<open>LTEE\<close>, \<^verbatim>\<open>LGET1\<close>, \<^verbatim>\<open>LSET0\<close>
  and \<^verbatim>\<open>LDEC\<close>.  No other opcode is numbered there: they all stand as \<open>0xFF\<close>
  here, and the sources evaluated below on this platform emit numbered opcodes only.  The
  general theorems hold for every numbering.
\<close>

definition v4_opcode :: "Op \<Rightarrow> byte" where
  "v4_opcode op =
     (case op of
        Op_LIT \<Rightarrow> 0x00 | Op_DUP \<Rightarrow> 0x01 | Op_ADD \<Rightarrow> 0x10
      | Op_JMP \<Rightarrow> 0x40 | Op_JZ \<Rightarrow> 0x41 | Op_CALL \<Rightarrow> 0x50 | Op_RET \<Rightarrow> 0x51
      | Op_SYS \<Rightarrow> 0x60
      | Op_LGET \<Rightarrow> 0x79 | Op_LSET \<Rightarrow> 0x7A | Op_LTEE \<Rightarrow> 0x7B
      | Op_LGET0 \<Rightarrow> 0x7C | Op_LGET1 \<Rightarrow> 0x7D | Op_LSET0 \<Rightarrow> 0x7E | Op_LSET1 \<Rightarrow> 0x7F
      | Op_LINC \<Rightarrow> 0x80 | Op_LDEC \<Rightarrow> 0x81
      | _ \<Rightarrow> 0xFF)"

text \<open>The two widths of \<^verbatim>\<open>long\<close> in use: 64 bits (LP64) and 32 bits (ILP32, LLP64).\<close>

definition lp64 :: platform where
  "lp64 = \<lparr>opcode = v4_opcode, long_bits = 64\<rparr>"

definition ilp32 :: platform where
  "ilp32 = \<lparr>opcode = v4_opcode, long_bits = 32\<rparr>"

subsection \<open>The tokens of the dispatch chain\<close>

text \<open>The tokens that \<open>dispatch\<close> tests before it looks a word up, in the order of the
  source, and the names of the composite words.\<close>

definition keyword_tokens :: "string list" where
  "keyword_tokens = ['':'', '';'', ''BEGIN'', ''DO'', ''UNTIL'', ''WHILE'', ''REPEAT'', ''AGAIN'',
               ''LEAVE'', ''LOOP'', ''+LOOP'', ''IF'', ''ELSE'', ''THEN'', ''EXIT'', ''SYS'',
               ''EMIT'', ''KEY'', ''L++'', ''L--'', ''L@'', ''L!'', ''L>!'', ''RECURSE'']"

definition composite_names :: "string list" where
  "composite_names = [''J'', ''K'', ''ROT'', ''NIP'', ''TUCK'', ''NEGATE'', ''?DUP'', ''ABS'',
                      ''MIN'', ''MAX'', ''0='', ''0<'', ''0>'', ''2DUP'', ''2DROP'', ''2SWAP'',
                      ''2OVER'', ''+!'', ''TRUE'', ''FALSE'']"

subsection \<open>Invariants of the compilation\<close>

text \<open>Every finished word body ends with \<^verbatim>\<open>RET\<close>; the main buffer fits its capacity.\<close>

definition words_ok :: "platform \<Rightarrow> WordDefEntry list \<Rightarrow> bool" where
  "words_ok P ds = (\<forall>e \<in> set ds. code e \<noteq> [] \<and> last (code e) = opcode P Op_RET)"

definition bc_ok :: "cstate \<Rightarrow> bool" where
  "bc_ok st = (length (bytes (bc st)) \<le> unat (cap (bc st)))"

definition cinv :: "platform \<Rightarrow> cstate \<Rightarrow> bool" where
  "cinv P st = (words_ok P (word_dict st) \<and> bc_ok st)"

text \<open>What holds of every output structure of a successful compilation.\<close>

definition out_ok :: "platform \<Rightarrow> V4FrontBuf \<Rightarrow> bool" where
  "out_ok P out =
     ((case words out of
         Null \<Rightarrow> word_count out = 0
       | Ptr ws \<Rightarrow> word_count out = length ws \<and>
           (\<forall>w \<in> set ws. w_code w \<noteq> [] \<and> last (w_code w) = opcode P Op_RET
                          \<and> w_code_len w = length (w_code w))
       | Dangling \<Rightarrow> False)
      \<and> (\<exists>bs. data out = Ptr bs \<and> size_of_data out = length bs \<and> 0 < length bs
               \<and> length bs < 2 ^ 32))"

section \<open>Properties\<close>

subsection \<open>The invariants are kept\<close>

lemma cinv_control_stack [simp]: "cinv P (st\<lparr>control_stack := cs\<rparr>) = cinv P st"
  by (simp add: cinv_def bc_ok_def)

lemma bindE_Inr: "bindE m f = Inr y \<Longrightarrow> \<exists>x. m = Inr x \<and> f x = Inr y"
  by (cases m) (simp_all add: bindE_def)

lemma append_byte_Inr:
  assumes "append_byte b st = Inr st'"
  shows "bytes (current_bc st') = bytes (current_bc st) @ [b]"
    and "length (bytes (current_bc st')) \<le> unat (cap (current_bc st'))"
    and "in_definition st' = in_definition st"
    and "word_dict st' = word_dict st"
    and "control_stack st' = control_stack st"
    and "in_definition st \<Longrightarrow> bc st' = bc st"
    and "\<not> in_definition st \<Longrightarrow> word_bc st' = word_bc st"
  using assms
  by (auto simp: append_byte_def Let_def current_bc_def set_current_bc_def split: if_splits)

lemma append_byte_inv: "append_byte b st = Inr st' \<Longrightarrow> cinv P st \<Longrightarrow> cinv P st'"
  using append_byte_Inr[of b st st']
  by (cases "in_definition st") (auto simp: cinv_def bc_ok_def current_bc_def)

lemma emit_inv: "emit bs st = Inr st' \<Longrightarrow> cinv P st \<Longrightarrow> cinv P st'"
proof (induction bs arbitrary: st)
  case Nil
  then show ?case by simp
next
  case (Cons b bs)
  from Cons.prems(1) obtain s1 where a: "append_byte b st = Inr s1" and e: "emit bs s1 = Inr st'"
    by (auto dest: bindE_Inr)
  from a Cons.prems(2) have "cinv P s1" by (rule append_byte_inv)
  with e show ?case by (rule Cons.IH)
qed

lemma poke_Some: "poke pos b buf = Some buf' \<Longrightarrow> length (bytes buf') = length (bytes buf) \<and> cap buf' = cap buf"
  by (auto simp: poke_def split: if_splits)

lemma backpatch_inv: "backpatch_i16_le pos v st = Inr st' \<Longrightarrow> cinv P st \<Longrightarrow> cinv P st'"
  by (auto simp: backpatch_i16_le_def cinv_def bc_ok_def current_bc_def set_current_bc_def
           split: option.splits if_splits dest!: poke_Some)

lemma backpatch_leaves_inv: "backpatch_leaves as st = Inr st' \<Longrightarrow> cinv P st \<Longrightarrow> cinv P st'"
proof (induction as arbitrary: st)
  case Nil
  then show ?case by simp
next
  case (Cons a as)
  from Cons.prems(1) obtain s1 where
    a: "backpatch_i16_le a (rel16 (current_bc_size st) a) st = Inr s1"
    and e: "backpatch_leaves as s1 = Inr st'"
    by (auto dest: bindE_Inr)
  from a Cons.prems(2) have "cinv P s1" by (rule backpatch_inv)
  with e show ?case by (rule Cons.IH)
qed

lemmas step_invs = emit_inv backpatch_inv backpatch_leaves_inv append_byte_inv

lemma kw_BEGIN_inv: "kw_BEGIN st = Inr st' \<Longrightarrow> cinv P st \<Longrightarrow> cinv P st'"
  by (fastforce simp: kw_BEGIN_def split: if_splits)

lemma kw_DO_inv: "kw_DO P st = Inr st' \<Longrightarrow> cinv P st \<Longrightarrow> cinv P st'"
  by (fastforce simp: kw_DO_def emit_ops_def split: if_splits dest!: bindE_Inr dest: step_invs)

lemma kw_UNTIL_inv: "kw_UNTIL P st = Inr st' \<Longrightarrow> cinv P st \<Longrightarrow> cinv P st'"
  by (fastforce simp: kw_UNTIL_def emit_ops_def append_i16_le_def
           split: if_splits list.splits ControlFrame.splits dest!: bindE_Inr dest: step_invs)

lemma kw_WHILE_inv: "kw_WHILE P st = Inr st' \<Longrightarrow> cinv P st \<Longrightarrow> cinv P st'"
  by (fastforce simp: kw_WHILE_def emit_ops_def append_i16_le_def Let_def
           split: if_splits list.splits ControlFrame.splits dest!: bindE_Inr dest: step_invs)

lemma kw_REPEAT_inv: "kw_REPEAT P st = Inr st' \<Longrightarrow> cinv P st \<Longrightarrow> cinv P st'"
  by (fastforce simp: kw_REPEAT_def emit_ops_def append_i16_le_def Let_def
           split: if_splits list.splits ControlFrame.splits dest!: bindE_Inr dest: step_invs)

lemma kw_AGAIN_inv: "kw_AGAIN P st = Inr st' \<Longrightarrow> cinv P st \<Longrightarrow> cinv P st'"
  by (fastforce simp: kw_AGAIN_def emit_ops_def append_i16_le_def Let_def
           split: if_splits list.splits ControlFrame.splits dest!: bindE_Inr dest: step_invs)

lemma kw_LEAVE_inv: "kw_LEAVE P st = Inr st' \<Longrightarrow> cinv P st \<Longrightarrow> cinv P st'"
  by (fastforce simp: kw_LEAVE_def emit_ops_def append_i16_le_def Let_def
           split: if_splits option.splits ControlFrame.splits dest!: bindE_Inr dest: step_invs)

lemma loop_tail_inv: "loop_tail P d ls rest st = Inr st' \<Longrightarrow> cinv P st \<Longrightarrow> cinv P st'"
  by (fastforce simp: loop_tail_def emit_ops_def append_i16_le_def Let_def
           dest!: bindE_Inr dest: step_invs)

lemma kw_LOOP_inv: "kw_LOOP P st = Inr st' \<Longrightarrow> cinv P st \<Longrightarrow> cinv P st'"
  by (fastforce simp: kw_LOOP_def emit_ops_def append_i32_le_def Let_def
           split: if_splits list.splits ControlFrame.splits
           dest!: bindE_Inr dest: step_invs loop_tail_inv)

lemma kw_PLOOP_inv: "kw_PLOOP P st = Inr st' \<Longrightarrow> cinv P st \<Longrightarrow> cinv P st'"
  by (fastforce simp: kw_PLOOP_def emit_ops_def Let_def
           split: if_splits list.splits ControlFrame.splits
           dest!: bindE_Inr dest: step_invs loop_tail_inv)

lemma kw_IF_inv: "kw_IF P st = Inr st' \<Longrightarrow> cinv P st \<Longrightarrow> cinv P st'"
  by (fastforce simp: kw_IF_def emit_ops_def append_i16_le_def Let_def
           split: if_splits dest!: bindE_Inr dest: step_invs)

lemma kw_ELSE_inv: "kw_ELSE P st = Inr st' \<Longrightarrow> cinv P st \<Longrightarrow> cinv P st'"
  by (fastforce simp: kw_ELSE_def emit_ops_def append_i16_le_def Let_def
           split: if_splits list.splits ControlFrame.splits dest!: bindE_Inr dest: step_invs)

lemma kw_THEN_inv: "kw_THEN st = Inr st' \<Longrightarrow> cinv P st \<Longrightarrow> cinv P st'"
  by (fastforce simp: kw_THEN_def Let_def
           split: if_splits list.splits ControlFrame.splits dest: step_invs)

lemma kw_RECURSE_inv: "kw_RECURSE P st = Inr st' \<Longrightarrow> cinv P st \<Longrightarrow> cinv P st'"
  by (fastforce simp: kw_RECURSE_def split: if_splits dest!: bindE_Inr dest: step_invs)

lemma handle_colon_start_inv:
  "handle_colon_start p st = Inr (p', st') \<Longrightarrow> cinv P st \<Longrightarrow> cinv P st'"
  by (fastforce simp: handle_colon_start_def Let_def cinv_def bc_ok_def split: if_splits)

lemma handle_semicolon_end_inv:
  assumes "handle_semicolon_end P st = Inr st'" and "cinv P st"
  shows "cinv P st'"
proof -
  from assms(1) have d: "in_definition st"
    by (fastforce simp: handle_semicolon_end_def split: if_splits)
  with assms(1) obtain s1 where a: "append_byte (opcode P Op_RET) st = Inr s1"
    and st': "st' = s1\<lparr>word_dict := word_dict s1 @
                       [\<lparr>name = take (MAX_WORD_NAME_LEN - 1) (current_word_name s1),
                         code = bytes (word_bc s1)\<rparr>],
                    in_definition := False, current_word_name := [],
                    word_bc := empty_buffer\<rparr>"
    by (fastforce simp: handle_semicolon_end_def dest!: bindE_Inr)
  from append_byte_Inr[OF a] d have
    "bytes (word_bc s1) = bytes (word_bc st) @ [opcode P Op_RET]" "word_dict s1 = word_dict st"
    "bc s1 = bc st"
    by (auto simp: current_bc_def)
  with assms(2) show ?thesis unfolding st' by (auto simp: cinv_def bc_ok_def words_ok_def)
qed

lemma keep_InrD: "keep p r = Inr (p', st') \<Longrightarrow> r = Inr st'"
  by (auto simp: keep_def split: sum.splits)

lemma operand_keyword_inv:
  "operand_keyword P op e1 e2 p st = Inr (p', st') \<Longrightarrow> cinv P st \<Longrightarrow> cinv P st'"
  by (fastforce simp: operand_keyword_def Let_def
           split: if_splits option.splits dest!: keep_InrD bindE_Inr dest: step_invs)

lemmas kw_invs = kw_BEGIN_inv kw_DO_inv kw_UNTIL_inv kw_WHILE_inv kw_REPEAT_inv kw_AGAIN_inv
  kw_LEAVE_inv kw_LOOP_inv kw_PLOOP_inv kw_IF_inv kw_ELSE_inv kw_THEN_inv kw_RECURSE_inv
  handle_semicolon_end_inv

lemma dispatch_inv:
  "dispatch P ctx token p st = Inr (p', st') \<Longrightarrow> cinv P st \<Longrightarrow> cinv P st'"
  unfolding dispatch_def Let_def emit_ops_def
  by (fastforce split: if_splits option.splits
           dest!: keep_InrD bindE_Inr
           dest: kw_invs step_invs operand_keyword_inv handle_colon_start_inv)

lemma compile_loop_end:
  "dropWhile isspace p = [] \<Longrightarrow> compile_loop P ctx p st = finish P st"
  by (subst compile_loop.simps) (simp only: Let_def refl if_True)

lemma compile_loop_token:
  "dropWhile isspace p \<noteq> [] \<Longrightarrow>
   compile_loop P ctx p st =
     (case dispatch P ctx
             (take (MAX_TOKEN_LEN - 1) (takeWhile (\<lambda>c. \<not> isspace c) (dropWhile isspace p)))
             (dropWhile (\<lambda>c. \<not> isspace c) (dropWhile isspace p)) st of
        Inl e \<Rightarrow> Inl (e, zero_buf)
      | Inr (p3, st') \<Rightarrow> compile_loop P ctx p3 st')"
  by (subst compile_loop.simps) (simp only: Let_def if_False)

lemma copy_words_Some:
  "copy_words h ds = Some (h', ws) \<Longrightarrow>
   ws = map (\<lambda>e. \<lparr>w_name = name e, w_code = code e, w_code_len = length (code e)\<rparr>) ds"
  by (induction ds arbitrary: h h' ws) (auto split: if_splits option.splits)

lemma unat_cap_bound: "unat (c :: 32 word) < 2 ^ 32"
  using unsigned_less[of c, where 'a = nat] by simp

lemma main_buffer_pointer:
  assumes "length (bytes b) \<le> unat (cap b)" and "bytes b \<noteq> []"
  shows "\<exists>bs. buffer_pointer b = Ptr bs \<and> length (bytes b) = length bs \<and> 0 < length bs
              \<and> length bs < 2 ^ 32"
proof -
  from assms have "unat (cap b) \<noteq> 0" by (cases "bytes b") auto
  then have "cap b \<noteq> 0" by (metis unat_0)
  moreover from assms(1) unat_cap_bound[of "cap b"] have "length (bytes b) < 2 ^ 32" by simp
  ultimately show ?thesis using assms(2) by (simp add: buffer_pointer_def)
qed

lemma trailing_ret_Inr:
  assumes "trailing_ret P out st = Inr out'" and "\<not> in_definition st" and "bc_ok st"
  shows "words out' = words out \<and> word_count out' = word_count out \<and>
         (\<exists>bs. data out' = Ptr bs \<and> size_of_data out' = length bs \<and> 0 < length bs
               \<and> length bs < 2 ^ 32)"
proof (cases "current_bc_size st \<ge> 3 \<and>
              bytes (current_bc st) ! (current_bc_size st - 3) = opcode P Op_JMP")
  case True
  with assms(1) have o: "out' = out\<lparr>data := buffer_pointer (bc st),
                                   size_of_data := length (bytes (bc st))\<rparr>"
    by (simp add: trailing_ret_def Let_def)
  from True assms(2) have "bytes (bc st) \<noteq> []"
    by (auto simp: current_bc_size_def current_bc_def)
  with assms(3) main_buffer_pointer[of "bc st"] show ?thesis
    unfolding o by (auto simp: bc_ok_def)
next
  case False
  with assms(1) obtain s1 where a: "append_byte (opcode P Op_RET) st = Inr s1"
    and o: "out' = out\<lparr>data := buffer_pointer (bc s1),
                         size_of_data := length (bytes (bc s1))\<rparr>"
    by (auto simp: trailing_ret_def Let_def split: sum.splits)
  from append_byte_Inr[OF a] assms(2)
  have "bytes (bc s1) \<noteq> []" "length (bytes (bc s1)) \<le> unat (cap (bc s1))"
    by (auto simp: current_bc_def)
  with main_buffer_pointer[of "bc s1"] show ?thesis unfolding o by auto
qed

lemma finish_out_ok:
  assumes "finish P st = Inr out" and "cinv P st"
  shows "out_ok P out"
proof -
  from assms(1) have cs: "control_stack st = []" and nd: "\<not> in_definition st"
    by (auto simp: finish_def split: list.splits ControlFrame.splits if_splits)
  from assms(2) have bo: "bc_ok st" and wo: "words_ok P (word_dict st)"
    by (auto simp: cinv_def)
  show ?thesis
  proof (cases "word_dict st = []")
    case True
    with assms(1) cs nd have "trailing_ret P zero_buf st = Inr out"
      by (simp add: finish_def)
    from trailing_ret_Inr[OF this nd bo] show ?thesis
      by (auto simp: out_ok_def zero_buf_def)
  next
    case False
    with assms(1) cs nd obtain h ws where
      c: "copy_words (heap st - 1) (word_dict st) = Some (h, ws)"
      and t: "trailing_ret P (zero_buf\<lparr>words := Ptr ws, word_count := length (word_dict st)\<rparr>)
                (st\<lparr>heap := h\<rparr>) = Inr out"
      by (auto simp: finish_def split: if_splits option.splits)
    have "\<not> in_definition (st\<lparr>heap := h\<rparr>)" "bc_ok (st\<lparr>heap := h\<rparr>)"
      using nd bo by (auto simp: bc_ok_def)
    from trailing_ret_Inr[OF t this] copy_words_Some[OF c] wo show ?thesis
      by (auto simp: out_ok_def words_ok_def)
  qed
qed

lemma compile_loop_out_ok:
  "compile_loop P ctx p st = Inr out \<Longrightarrow> cinv P st \<Longrightarrow> out_ok P out"
proof (induction P ctx p st rule: compile_loop.induct)
  case (1 P ctx p st)
  show ?case
  proof (cases "dropWhile isspace p = []")
    case True
    with "1.prems" show ?thesis
      by (simp add: compile_loop_end finish_out_ok)
  next
    case False
    let ?p1 = "dropWhile isspace p"
    let ?token = "take (MAX_TOKEN_LEN - 1) (takeWhile (\<lambda>c. \<not> isspace c) ?p1)"
    let ?p2 = "dropWhile (\<lambda>c. \<not> isspace c) ?p1"
    from "1.prems"(1) have
      "(case dispatch P ctx ?token ?p2 st of
          Inl e \<Rightarrow> Inl (e, zero_buf)
        | Inr (p3, st') \<Rightarrow> compile_loop P ctx p3 st') = Inr out"
      by (simp only: compile_loop_token[OF False])
    then obtain p3 st' where
      d: "dispatch P ctx ?token ?p2 st = Inr (p3, st')"
      and r: "compile_loop P ctx p3 st' = Inr out"
      by (auto split: sum.splits)
    from d "1.prems"(2) have "cinv P st'" by (rule dispatch_inv)
    with "1.IH"[OF refl False refl refl d refl r] show ?thesis .
  qed
qed

lemma cinv_init: "cinv P (init_state h)"
  by (simp add: cinv_def words_ok_def bc_ok_def init_state_def empty_buffer_def)

lemma empty_input_out_ok: "empty_input P h = Inr out \<Longrightarrow> out_ok P out"
proof -
  assume e: "empty_input P h = Inr out"
  then obtain s1 where a: "append_byte (opcode P Op_RET) (init_state h) = Inr s1"
    and o: "out = zero_buf\<lparr>data := buffer_pointer (bc s1),
                           size_of_data := length (bytes (bc s1))\<rparr>"
    by (auto simp: empty_input_def split: sum.splits)
  from append_byte_Inr[OF a]
  have "bytes (bc s1) \<noteq> []" "length (bytes (bc s1)) \<le> unat (cap (bc s1))"
    by (auto simp: current_bc_def init_state_def)
  with main_buffer_pointer[of "bc s1"] show ?thesis
    unfolding o by (auto simp: out_ok_def zero_buf_def)
qed

lemma compile_internal_out_ok:
  "compile_internal P ctx h source = Inr out \<Longrightarrow> out_ok P out"
  by (auto simp: compile_internal_def split: option.splits if_splits
           intro: empty_input_out_ok compile_loop_out_ok cinv_init)

subsection \<open>Tokens, literals and the file image\<close>

lemma str_eq_ci_iff: "str_eq_ci a b \<longleftrightarrow> map tolower a = map tolower b"
  by (induction a b rule: str_eq_ci.induct) auto

lemma str_eq_ci_other:
  "str_eq_ci token n \<Longrightarrow> \<not> str_eq_ci n k \<Longrightarrow> \<not> str_eq_ci token k"
  by (simp add: str_eq_ci_iff)

lemma dispatch_non_keyword:
  assumes "\<forall>k \<in> set keyword_tokens. \<not> str_eq_ci token k"
  shows "dispatch P ctx token p st =
     (let word_idx = lookup_word_idx ctx token st in
         if word_idx \<ge> 0 then
           keep p (emit (opcode P Op_CALL # i16_le (word_of_int word_idx)) st)
         else
           (case try_parse_int (long_bits P) token of
              Some val \<Rightarrow> keep p (emit (opcode P Op_LIT # i32_le val) st)
            | None \<Rightarrow>
                (case composite P token of
                   Some bs \<Rightarrow> keep p (emit bs st)
                 | None \<Rightarrow>
                     (case lookup_simple_opcode token of
                        Some op \<Rightarrow> keep p (emit [opcode P op] st)
                      | None \<Rightarrow> Inl (Failed UnknownToken)))))"
  using assms unfolding dispatch_def keyword_tokens_def by simp

lemma dispatch_local_word:
  assumes "\<forall>k \<in> set keyword_tokens. \<not> str_eq_ci token k"
    and "find_local_word token (word_dict st) = Some i"
  shows "dispatch P ctx token p st = keep p (emit (opcode P Op_CALL # i16_le (of_nat i)) st)"
  using assms(2) unfolding dispatch_non_keyword[OF assms(1)]
  by (simp add: lookup_word_idx_def Let_def)

lemma composite_names_not_keywords:
  "\<forall>n \<in> set composite_names. \<forall>k \<in> set keyword_tokens. \<not> str_eq_ci n k"
  by code_simp

lemma primitives_not_keywords:
  "\<forall>(e, op, cs) \<in> set OPCODE_TABLE. \<forall>k \<in> set keyword_tokens. \<not> str_eq_ci e k"
  by code_simp

lemma composite_Some_name:
  "composite P token = Some bs \<Longrightarrow> \<exists>n \<in> set composite_names. str_eq_ci token n"
  by (simp add: composite_def composite_names_def Let_def split: if_splits)

lemma lookup_in_table_Some:
  "lookup_in_table tbl token = Some op \<Longrightarrow> \<exists>(e, op', cs) \<in> set tbl. str_eq_ci token e"
  by (induction tbl) (auto simp: str_eq_ci_iff split: if_splits)

lemma composite_not_keyword:
  assumes "composite P token = Some bs" shows "\<forall>k \<in> set keyword_tokens. \<not> str_eq_ci token k"
proof
  fix k assume k: "k \<in> set keyword_tokens"
  from composite_Some_name[OF assms] obtain n where
    n: "n \<in> set composite_names" "str_eq_ci token n" by blast
  from n(1) k composite_names_not_keywords have "\<not> str_eq_ci n k" by blast
  with n(2) show "\<not> str_eq_ci token k" by (rule str_eq_ci_other)
qed

lemma primitive_not_keyword:
  assumes "lookup_simple_opcode token = Some op" shows "\<forall>k \<in> set keyword_tokens. \<not> str_eq_ci token k"
proof
  fix k assume k: "k \<in> set keyword_tokens"
  from lookup_in_table_Some[OF assms[unfolded lookup_simple_opcode_def]] obtain e op' cs where
    n: "(e, op', cs) \<in> set OPCODE_TABLE" "str_eq_ci token e" by blast
  from n(1) k primitives_not_keywords have "\<not> str_eq_ci e k" by blast
  with n(2) show "\<not> str_eq_ci token k" by (rule str_eq_ci_other)
qed

lemma strtol_base_prefix:
  assumes "strtol_base s = (base, s2)" and "s2 \<noteq> []"
  shows "\<exists>pre. s = pre @ s2 \<and>
           ((pre \<in> {''0x'', ''0X''} \<and> base = 16) \<or>
            (pre = [] \<and> hd s2 = CHR ''0'' \<and> base = 8) \<or>
            (pre = [] \<and> hd s2 \<noteq> CHR ''0'' \<and> base = 10))"
  using assms by (auto simp: strtol_base_def split: list.splits if_splits)

lemma strtol_sign:
  assumes "(case s0 of
              c # cs \<Rightarrow> if c = CHR ''-'' then (True, cs)
                        else if c = CHR ''+'' then (False, cs) else (False, s0)
            | [] \<Rightarrow> (False, s0)) = (neg, s1)"
  shows "\<exists>sgn. s0 = sgn @ s1 \<and> sgn \<in> {[], ''-'', ''+''} \<and> (neg \<longleftrightarrow> sgn = ''-'')"
  using assms by (auto split: list.splits if_splits)

lemma strtol_Some_Nil:
  assumes "strtol L token = Some (val, [])"
  shows "\<exists>sgn pre ds base.
           dropWhile isspace token = sgn @ pre @ ds \<and> sgn \<in> {[], ''-'', ''+''} \<and> ds \<noteq> [] \<and>
           (\<forall>c \<in> set ds. is_digit base c) \<and>
           ((pre \<in> {''0x'', ''0X''} \<and> base = 16) \<or>
            (pre = [] \<and> hd ds = CHR ''0'' \<and> base = 8) \<or>
            (pre = [] \<and> hd ds \<noteq> CHR ''0'' \<and> base = 10)) \<and>
           val = clamp_long L ((if sgn = ''-'' then - 1 else 1) * digits_value base 0 ds)"
proof -
  obtain neg s1 where sg: "(case dropWhile isspace token of
              c # cs \<Rightarrow> if c = CHR ''-'' then (True, cs)
                        else if c = CHR ''+'' then (False, cs) else (False, dropWhile isspace token)
            | [] \<Rightarrow> (False, dropWhile isspace token)) = (neg, s1)"
    by (cases "(case dropWhile isspace token of
              c # cs \<Rightarrow> if c = CHR ''-'' then (True, cs)
                        else if c = CHR ''+'' then (False, cs) else (False, dropWhile isspace token)
            | [] \<Rightarrow> (False, dropWhile isspace token))") auto
  obtain base s2 where sb: "strtol_base s1 = (base, s2)" by (cases "strtol_base s1") auto
  from assms sg sb have
    ne: "takeWhile (is_digit base) s2 \<noteq> []" and
    dr: "dropWhile (is_digit base) s2 = []" and
    v: "val = clamp_long L (if neg then - digits_value base 0 (takeWhile (is_digit base) s2)
                            else digits_value base 0 (takeWhile (is_digit base) s2))"
    by (auto simp: strtol_def Let_def simp del: dropWhile_eq_Nil_conv takeWhile_eq_Nil_iff
             split: if_splits)
  from dr have all: "\<forall>c \<in> set s2. is_digit base c" by simp
  then have tk: "takeWhile (is_digit base) s2 = s2" by simp
  with ne have s2: "s2 \<noteq> []" by simp
  from strtol_base_prefix[OF sb s2] obtain pre where
    pre: "s1 = pre @ s2"
      "(pre \<in> {''0x'', ''0X''} \<and> base = 16) \<or>
       (pre = [] \<and> hd s2 = CHR ''0'' \<and> base = 8) \<or>
       (pre = [] \<and> hd s2 \<noteq> CHR ''0'' \<and> base = 10)" by blast
  from strtol_sign[OF sg] obtain sgn where
    sgn: "dropWhile isspace token = sgn @ s1" "sgn \<in> {[], ''-'', ''+''}" "neg \<longleftrightarrow> sgn = ''-''"
    by blast
  from v[unfolded tk] sgn(3) have
    "val = clamp_long L ((if sgn = ''-'' then - 1 else 1) * digits_value base 0 s2)"
    by simp
  with sgn(1,2) pre s2 all show ?thesis by blast
qed

lemma is_digit_not_sign:
  assumes "is_digit base c" and "base \<le> 16"
  shows "c \<noteq> CHR ''-''" and "c \<noteq> CHR ''+''" and "c \<noteq> CHR ''x''" and "c \<noteq> CHR ''X''"
proof -
  have "digit_val CHR ''-'' = None" "digit_val CHR ''+'' = None"
    "digit_val CHR ''x'' = Some 33" "digit_val CHR ''X'' = Some 33"
    by (simp_all add: digit_val_def)
  with assms show "c \<noteq> CHR ''-''" and "c \<noteq> CHR ''+''" and "c \<noteq> CHR ''x''" and "c \<noteq> CHR ''X''"
    by (auto simp: is_digit_def)
qed

lemma strtol_base_octal:
  assumes "ds \<noteq> []" and "\<forall>c \<in> set ds. is_digit 8 c" and "hd ds = CHR ''0''"
  shows "strtol_base ds = (8, ds)"
proof -
  have x: "c \<noteq> CHR ''x'' \<and> c \<noteq> CHR ''X''" if "c \<in> set ds" for c
    using is_digit_not_sign(3,4)[of 8 c] assms(2) that by simp
  show ?thesis
  proof (cases ds)
    case Nil
    with assms(1) show ?thesis by simp
  next
    case (Cons c0 r1)
    with assms(3) have c0: "c0 = CHR ''0''" by simp
    show ?thesis
    proof (cases r1)
      case Nil
      with Cons c0 show ?thesis by (simp add: strtol_base_def)
    next
      case (Cons x r2)
      with \<open>ds = c0 # r1\<close> x[of x] have "x \<noteq> CHR ''x''" "x \<noteq> CHR ''X''" by auto
      with Cons \<open>ds = c0 # r1\<close> c0 show ?thesis
        by (cases r2) (simp_all add: strtol_base_def)
    qed
  qed
qed

lemma strtol_base_decimal:
  assumes "ds \<noteq> []" and "hd ds \<noteq> CHR ''0''"
  shows "strtol_base ds = (10, ds)"
  using assms by (auto simp: strtol_base_def split: list.splits)

lemma strtol_base_hex:
  assumes "ds \<noteq> []" and "\<forall>c \<in> set ds. is_digit 16 c" and "pre \<in> {''0x'', ''0X''}"
  shows "strtol_base (pre @ ds) = (16, ds)"
  using assms by (cases ds) (auto simp: strtol_base_def)

lemma strtol_accepts:
  assumes "dropWhile isspace token = sn @ pre @ ds" and "sn \<in> {[], ''-'', ''+''}"
    and "ds \<noteq> []" and "\<forall>c \<in> set ds. is_digit base c"
    and "(pre \<in> {''0x'', ''0X''} \<and> base = 16) \<or>
         (pre = [] \<and> hd ds = CHR ''0'' \<and> base = 8) \<or>
         (pre = [] \<and> hd ds \<noteq> CHR ''0'' \<and> base = 10)"
  shows "strtol L token =
           Some (clamp_long L ((if sn = ''-'' then - 1 else 1) * digits_value base 0 ds), [])"
proof -
  from assms(5) have b: "base \<le> 16" by auto
  have sb: "strtol_base (pre @ ds) = (base, ds)"
    using assms(3,4,5) strtol_base_hex[of ds pre] strtol_base_octal[of ds] strtol_base_decimal[of ds]
    by auto
  from assms(3,4) have hd: "is_digit base (hd ds)" by (cases ds) auto
  have h: "hd (pre @ ds) \<noteq> CHR ''-''" "hd (pre @ ds) \<noteq> CHR ''+''" "pre @ ds \<noteq> []"
    using assms(3,5) is_digit_not_sign(1,2)[OF hd b] by auto
  have sg0: "(case dropWhile isspace token of
              c # cs \<Rightarrow> if c = CHR ''-'' then (True, cs)
                        else if c = CHR ''+'' then (False, cs) else (False, dropWhile isspace token)
            | [] \<Rightarrow> (False, dropWhile isspace token)) = (sn = ''-'', pre @ ds)"
  proof -
    from assms(2) consider "sn = []" | "sn = ''-''" | "sn = ''+''" by auto
    then show ?thesis
    proof cases
      case 1
      with h assms(1) show ?thesis by (cases "pre @ ds") auto
    next
      case 2
      with assms(1) show ?thesis by simp
    next
      case 3
      with assms(1) show ?thesis by simp
    qed
  qed
  from assms(4) have tk: "takeWhile (is_digit base) ds = ds" "dropWhile (is_digit base) ds = []"
    by simp_all
  show ?thesis
    unfolding strtol_def Let_def sg0 prod.case sb tk using assms(3) by simp
qed

lemma try_parse_int_iff:
  "try_parse_int L token = Some v \<longleftrightarrow>
      (\<exists>sgn pre ds base.
           dropWhile isspace token = sgn @ pre @ ds \<and> sgn \<in> {[], ''-'', ''+''} \<and> ds \<noteq> [] \<and>
           (\<forall>c \<in> set ds. is_digit base c) \<and>
           ((pre \<in> {''0x'', ''0X''} \<and> base = 16) \<or>
            (pre = [] \<and> hd ds = CHR ''0'' \<and> base = 8) \<or>
            (pre = [] \<and> hd ds \<noteq> CHR ''0'' \<and> base = 10)) \<and>
           v = word_of_int (clamp_long L ((if sgn = ''-'' then - 1 else 1) * digits_value base 0 ds)))"
  (is "?l \<longleftrightarrow> ?r")
proof
  assume ?l
  then obtain val where s: "strtol L token = Some (val, [])" and v: "v = word_of_int val"
    by (auto simp: try_parse_int_def split: option.splits if_splits)
  from strtol_Some_Nil[OF s] v show ?r by blast
next
  assume ?r
  then obtain sn pre ds base where
    a: "dropWhile isspace token = sn @ pre @ ds" "sn \<in> {[], ''-'', ''+''}" "ds \<noteq> []"
      "\<forall>c \<in> set ds. is_digit base c"
      "(pre \<in> {''0x'', ''0X''} \<and> base = 16) \<or>
       (pre = [] \<and> hd ds = CHR ''0'' \<and> base = 8) \<or>
       (pre = [] \<and> hd ds \<noteq> CHR ''0'' \<and> base = 10)"
    and v: "v = word_of_int (clamp_long L ((if sn = ''-'' then - 1 else 1) * digits_value base 0 ds))"
    by blast
  from strtol_accepts[OF a] v show ?l by (simp add: try_parse_int_def)
qed

lemma le32_i32_le: "le32 (i32_le w) = w"
proof (rule bit_word_eqI)
  fix n assume "n < LENGTH(32)"
  then consider "n < 8" | "8 \<le> n \<and> n < 16" | "16 \<le> n \<and> n < 24" | "24 \<le> n \<and> n < 32"
    by force
  then show "bit (le32 (i32_le w)) n \<longleftrightarrow> bit w n"
    by cases (auto simp: le32_def i32_le_def bit_simps)
qed

lemma load_saved:
  assumes "data out = Ptr bs" and "size_of_data out = length bs" and "0 < length bs"
    and "length bs < 2 ^ 32" and "16 + length bs \<le> room"
  shows "\<exists>file. v4front_save_bytecode (Some out) (Some fn) (Some room) = Inr file \<and>
           v4front_load_bytecode (Some fn') (Some file) (Suc k) =
             Inr \<lparr>words = Null, word_count = 0, data = Ptr bs, size_of_data = length bs\<rparr>"
proof -
  let ?h = "\<lparr>magic = V4B_MAGIC, version_major = V4B_VERSION_MAJOR,
             version_minor = V4B_VERSION_MINOR, flags = 0,
             code_size = (of_nat (length bs) :: 32 word), reserved = 0\<rparr>"
  let ?file = "header_image ?h @ bs"
  have s: "v4front_save_bytecode (Some out) (Some fn) (Some room) = Inr ?file"
    using assms by (simp add: v4front_save_bytecode_def Let_def)
  have l16: "length (header_image ?h) = 16"
    by (simp add: header_image_def i16_le_def i32_le_def V4B_MAGIC_def)
  have m: "magic (header_of_image (take 16 ?file)) = V4B_MAGIC"
    by (simp add: header_of_image_def header_image_def V4B_MAGIC_def)
  have "take 4 (drop 8 (take 16 ?file)) = i32_le (of_nat (length bs))"
    by (simp add: header_image_def V4B_MAGIC_def i16_le_def i32_le_def)
  then have c: "code_size (header_of_image (take 16 ?file)) = of_nat (length bs)"
    by (simp add: header_of_image_def le32_i32_le)
  have u: "unat (of_nat (length bs) :: 32 word) = length bs"
    using assms(4) by (simp add: unat_of_nat)
  have "v4front_load_bytecode (Some fn') (Some ?file) (Suc k) =
          Inr \<lparr>words = Null, word_count = 0, data = Ptr bs, size_of_data = length bs\<rparr>"
    unfolding v4front_load_bytecode_def using l16 m c u by (simp add: Let_def)
  with s show ?thesis by blast
qed

lemma load_wrong_magic:
  assumes "16 \<le> length file" and "take 4 file \<noteq> V4B_MAGIC"
  shows "v4front_load_bytecode (Some fn) (Some file) k = Inl (- 4)"
  using assms by (simp add: v4front_load_bytecode_def header_of_image_def Let_def)

lemma load_minus_four:
  assumes "v4front_load_bytecode filename file k = Inl (- 4)"
  shows "\<exists>f. file = Some f \<and> 16 \<le> length f \<and> take 4 f \<noteq> V4B_MAGIC"
  using assms
  by (auto simp: v4front_load_bytecode_def header_of_image_def Let_def
           split: option.splits if_splits)

lemma empty_input_result:
  "empty_input P (Suc h) =
     Inr \<lparr>words = Null, word_count = 0, data = Ptr [opcode P Op_RET], size_of_data = 1\<rparr>"
  by (simp add: empty_input_def append_byte_def init_state_def current_bc_def set_current_bc_def
                empty_buffer_def buffer_pointer_def zero_buf_def Let_def)

lemma finish_init_result:
  "finish P (init_state (Suc h)) =
     Inr \<lparr>words = Null, word_count = 0, data = Ptr [opcode P Op_RET], size_of_data = 1\<rparr>"
  by (simp add: finish_def trailing_ret_def append_byte_def init_state_def current_bc_def
                current_bc_size_def set_current_bc_def
                empty_buffer_def buffer_pointer_def zero_buf_def Let_def)

lemma handle_colon_start_accepts:
  assumes "\<not> in_definition st" and "nm \<noteq> []" and "length nm < MAX_WORD_NAME_LEN"
    and "\<forall>c \<in> set nm. \<not> isspace c"
    and "\<forall>e \<in> set (word_dict st). \<not> str_eq_ci (name e) nm"
    and "length (word_dict st) < MAX_WORDS"
  shows "handle_colon_start (CHR '' '' # nm @ CHR '' '' # rest) st =
           Inr (CHR '' '' # rest,
                st\<lparr>in_definition := True, current_word_name := nm, word_bc := empty_buffer\<rparr>)"
proof -
  have sp: "isspace CHR '' ''" by (simp add: isspace_def)
  from assms(2,4) have "\<not> isspace (hd nm)" by (cases nm) auto
  with assms(2) sp have d: "dropWhile isspace (CHR '' '' # nm @ CHR '' '' # rest) = nm @ CHR '' '' # rest"
    by (cases nm) auto
  from assms(4) sp have t: "takeWhile (\<lambda>c. \<not> isspace c) (nm @ CHR '' '' # rest) = nm"
    by (simp add: takeWhile_tail)
  from assms(4) sp have r: "dropWhile (\<lambda>c. \<not> isspace c) (nm @ CHR '' '' # rest) = CHR '' '' # rest"
    by (simp add: dropWhile_append3)
  show ?thesis
    unfolding handle_colon_start_def d t r Let_def using assms by auto
qed

subsection \<open>The search of the local word table\<close>

lemma find_local_word_Some_iff:
  "find_local_word token ws = Some i \<longleftrightarrow>
     i < length ws \<and> str_eq_ci token (name (ws ! i)) \<and>
     (\<forall>j<i. \<not> str_eq_ci token (name (ws ! j)))"
proof (induction ws arbitrary: i)
  case Nil
  then show ?case by simp
next
  case (Cons e es)
  show ?case
  proof (cases "str_eq_ci token (name e)")
    case True
    then show ?thesis by (cases i) auto
  next
    case False
    show ?thesis
    proof (cases i)
      case 0
      with False show ?thesis by auto
    next
      case (Suc k)
      have "(\<forall>j<Suc k. \<not> str_eq_ci token (name ((e # es) ! j))) \<longleftrightarrow>
            (\<forall>j<k. \<not> str_eq_ci token (name (es ! j)))"
        using False by (auto simp: less_Suc_eq_0_disj)
      with False Suc Cons.IH[of k] show ?thesis by auto
    qed
  qed
qed

lemma find_local_word_None_iff:
  "find_local_word token ws = None \<longleftrightarrow> (\<forall>e \<in> set ws. \<not> str_eq_ci token (name e))"
  by (induction ws) auto

lemma dispatch_first_match:
  assumes "\<forall>k \<in> set keyword_tokens. \<not> str_eq_ci token k"
    and "i < length (word_dict st)" and "str_eq_ci token (name (word_dict st ! i))"
    and "\<forall>j<i. \<not> str_eq_ci token (name (word_dict st ! j))"
  shows "dispatch P ctx token p st = keep p (emit (opcode P Op_CALL # i16_le (of_nat i)) st)"
proof -
  from assms(2,3,4) have "find_local_word token (word_dict st) = Some i"
    by (simp add: find_local_word_Some_iff)
  with assms(1) show ?thesis by (rule dispatch_local_word)
qed

lemma append_byte_name:
  "append_byte b st = Inr st' \<Longrightarrow> current_word_name st' = current_word_name st"
  by (auto simp: append_byte_def Let_def set_current_bc_def split: if_splits)

lemma handle_semicolon_end_word:
  assumes "handle_semicolon_end P st = Inr st'"
    and "length (current_word_name st) < MAX_WORD_NAME_LEN"
  shows "length (word_dict st') = Suc (length (word_dict st))"
    and "name (word_dict st' ! length (word_dict st)) = current_word_name st"
    and "j < length (word_dict st) \<Longrightarrow> word_dict st' ! j = word_dict st ! j"
proof -
  from assms(1) have d: "in_definition st"
    by (fastforce simp: handle_semicolon_end_def split: if_splits)
  with assms(1) obtain s1 where a: "append_byte (opcode P Op_RET) st = Inr s1"
    and st': "st' = s1\<lparr>word_dict := word_dict s1 @
                       [\<lparr>name = take (MAX_WORD_NAME_LEN - 1) (current_word_name s1),
                         code = bytes (word_bc s1)\<rparr>],
                    in_definition := False, current_word_name := [],
                    word_bc := empty_buffer\<rparr>"
    by (fastforce simp: handle_semicolon_end_def dest!: bindE_Inr)
  from append_byte_Inr(4)[OF a] append_byte_name[OF a] have
    w: "word_dict s1 = word_dict st" "current_word_name s1 = current_word_name st" by auto
  have t: "length (current_word_name st) \<le> MAX_WORD_NAME_LEN - Suc 0"
    using assms(2) by simp
  show "length (word_dict st') = Suc (length (word_dict st))" by (simp add: st' w)
  show "name (word_dict st' ! length (word_dict st)) = current_word_name st"
    by (simp add: st' w t)
  show "j < length (word_dict st) \<Longrightarrow> word_dict st' ! j = word_dict st ! j"
    by (simp add: st' w nth_append)
qed

lemma dispatch_defined_word:
  assumes "handle_semicolon_end P st = Inr st'"
    and "length (current_word_name st) < MAX_WORD_NAME_LEN"
    and "\<forall>e \<in> set (word_dict st). \<not> str_eq_ci (name e) (current_word_name st)"
    and "str_eq_ci token (current_word_name st)"
    and "\<forall>k \<in> set keyword_tokens. \<not> str_eq_ci token k"
  shows "dispatch P ctx token p st' =
           keep p (emit (opcode P Op_CALL # i16_le (of_nat (length (word_dict st)))) st')"
proof (rule dispatch_first_match[OF assms(5)])
  note w = handle_semicolon_end_word[OF assms(1,2)]
  show "length (word_dict st) < length (word_dict st')" by (simp add: w(1))
  show "str_eq_ci token (name (word_dict st' ! length (word_dict st)))"
    using assms(4) by (simp add: w(2))
  show "\<forall>j<length (word_dict st). \<not> str_eq_ci token (name (word_dict st' ! j))"
  proof (intro allI impI)
    fix j assume j: "j < length (word_dict st)"
    then have "word_dict st ! j \<in> set (word_dict st)" by simp
    with assms(3) have "\<not> str_eq_ci (name (word_dict st ! j)) (current_word_name st)" by blast
    with assms(4) show "\<not> str_eq_ci token (name (word_dict st' ! j))"
      by (simp add: w(3)[OF j] str_eq_ci_iff)
  qed
qed

subsection \<open>Known-answer compilations\<close>

text \<open>
  Claim C1.  The source \<^verbatim>\<open>1 IF 42 THEN\<close> compiles, on either width of \<^verbatim>\<open>long\<close> and
  whenever the allocator grants one allocation, to the 14 bytes
  \<^verbatim>\<open>00 01 00 00 00 41 05 00 00 2A 00 00 00 51\<close> and no word definitions.  The offset
  that \<^verbatim>\<open>THEN\<close> patches in at address 6 is \<open>target - (patch_addr + 2)\<close> for the
  target 13, that is 13 - 8 = 5, stored low byte first.
\<close>

theorem C1_if_then_bytes:
  "v4front_compile lp64 (Suc h) (Some ''1 IF 42 THEN'') =
     Inr \<lparr>words = Null, word_count = 0,
          data = Ptr [0x00, 0x01, 0x00, 0x00, 0x00, 0x41, 0x05, 0x00, 0x00, 0x2A, 0x00, 0x00, 0x00, 0x51],
          size_of_data = 14\<rparr>
   \<and> v4front_compile ilp32 (Suc h) (Some ''1 IF 42 THEN'') =
     Inr \<lparr>words = Null, word_count = 0,
          data = Ptr [0x00, 0x01, 0x00, 0x00, 0x00, 0x41, 0x05, 0x00, 0x00, 0x2A, 0x00, 0x00, 0x00, 0x51],
          size_of_data = 14\<rparr>
   \<and> rel16 13 6 = 5 \<and> i16_le (rel16 13 6) = [0x05, 0x00]"
  by code_simp

text \<open>
  Claim C2.  The claim fails on the code: the source \<^verbatim>\<open>16384\<close> is one \<^verbatim>\<open>LIT\<close>
  instruction, \<^verbatim>\<open>00 00 40 00 00\<close>, whose third byte from the end is the byte of
  \<^verbatim>\<open>JMP\<close>; the test for a final jump looks at that byte only, so the compilation
  succeeds with a main bytecode that ends in \<^verbatim>\<open>00\<close> and has no \<^verbatim>\<open>RET\<close>.  The same
  happens after an \<^verbatim>\<open>ELSE\<close> directly followed by \<^verbatim>\<open>THEN\<close>, whose jump is a forward
  one.  \<^verbatim>\<open>BEGIN DUP AGAIN\<close> does compile to \<^verbatim>\<open>01 40 FC FF\<close>.
\<close>

theorem C2_literal_16384_without_ret:
  "v4front_compile lp64 (Suc h) (Some ''16384'') =
     Inr \<lparr>words = Null, word_count = 0, data = Ptr [0x00, 0x00, 0x40, 0x00, 0x00],
          size_of_data = 5\<rparr>
   \<and> v4front_compile lp64 (Suc h) (Some ''1 IF 2 ELSE THEN'') =
     Inr \<lparr>words = Null, word_count = 0,
          data = Ptr [0x00, 0x01, 0x00, 0x00, 0x00, 0x41, 0x08, 0x00,
                      0x00, 0x02, 0x00, 0x00, 0x00, 0x40, 0x00, 0x00],
          size_of_data = 16\<rparr>
   \<and> v4front_compile lp64 (Suc h) (Some ''BEGIN DUP AGAIN'') =
     Inr \<lparr>words = Null, word_count = 0, data = Ptr [0x01, 0x40, 0xFC, 0xFF],
          size_of_data = 4\<rparr>"
  by code_simp

text \<open>
  Claim C5.  The claim fails on the code when the allocation that fails is one of the last:
  for the source \<^verbatim>\<open>: A ;\<close> the word table has been moved into the output structure
  when the \<^verbatim>\<open>realloc\<close> for the trailing \<^verbatim>\<open>RET\<close> is refused (the fourth allocation),
  and the function returns \<^verbatim>\<open>OutOfMemory\<close> with \<^verbatim>\<open>words\<close> set and
  \<^verbatim>\<open>word_count = 1\<close>; \<^verbatim>\<open>v4front_free\<close> then releases three blocks.  When the
  \<^verbatim>\<open>strdup\<close> of the name is refused (the third allocation), \<^verbatim>\<open>words\<close> is left
  pointing to the array that has just been freed, and \<^verbatim>\<open>v4front_free\<close> frees it again.
\<close>

theorem C5_out_of_memory_leaves_words:
  "v4front_compile lp64 3 (Some '': A ;'') =
     Inl (Failed OutOfMemory,
          \<lparr>words = Ptr [\<lparr>w_name = ''A'', w_code = [0x51], w_code_len = 1\<rparr>], word_count = 1,
           data = Null, size_of_data = 0\<rparr>)
   \<and> v4front_free \<lparr>words = Ptr [\<lparr>w_name = ''A'', w_code = [0x51], w_code_len = 1\<rparr>],
                    word_count = 1, data = Null, size_of_data = 0\<rparr> = Some (3, zero_buf)
   \<and> v4front_compile lp64 2 (Some '': A ;'') =
     Inl (Failed OutOfMemory, \<lparr>words = Dangling, word_count = 0, data = Null, size_of_data = 0\<rparr>)
   \<and> v4front_free \<lparr>words = Dangling, word_count = 0, data = Null, size_of_data = 0\<rparr> = None
   \<and> v4front_compile lp64 4 (Some '': A ;'') =
     Inr \<lparr>words = Ptr [\<lparr>w_name = ''A'', w_code = [0x51], w_code_len = 1\<rparr>], word_count = 1,
          data = Ptr [0x51], size_of_data = 1\<rparr>"
  by code_simp

subsection \<open>Integer literals\<close>

text \<open>
  Claim C3, as the code has it.  A token is an integer literal exactly when, after an
  optional sign (\<^verbatim>\<open>-\<close> or \<^verbatim>\<open>+\<close>), it is a non-empty run of digits of the base that
  its prefix selects and nothing else: \<^verbatim>\<open>0x\<close> or \<^verbatim>\<open>0X\<close> selects base 16, a leading
  \<^verbatim>\<open>0\<close> selects base 8, anything else base 10.  Both directions hold: every token of
  this shape is accepted, with the value that \<^verbatim>\<open>strtol\<close> returns cast to 32 bits, and
  no other token is.  The tokens \<^verbatim>\<open>2147483647\<close> and \<^verbatim>\<open>-2147483648\<close> compile to
  \<^verbatim>\<open>LIT\<close> with their own value, on either width of \<^verbatim>\<open>long\<close>.
\<close>

theorem C3_integer_parser:
  "(try_parse_int L token = Some v \<longleftrightarrow>
      (\<exists>sgn pre ds base.
           dropWhile isspace token = sgn @ pre @ ds \<and> sgn \<in> {[], ''-'', ''+''} \<and> ds \<noteq> [] \<and>
           (\<forall>c \<in> set ds. is_digit base c) \<and>
           ((pre \<in> {''0x'', ''0X''} \<and> base = 16) \<or>
            (pre = [] \<and> hd ds = CHR ''0'' \<and> base = 8) \<or>
            (pre = [] \<and> hd ds \<noteq> CHR ''0'' \<and> base = 10)) \<and>
           v = word_of_int (clamp_long L ((if sgn = ''-'' then - 1 else 1) * digits_value base 0 ds))))
   \<and> try_parse_int 64 ''-42'' = Some (- 42) \<and> try_parse_int 64 ''0x1f'' = Some 31
   \<and> try_parse_int 64 ''0X1F'' = Some 31 \<and> try_parse_int 64 ''017'' = Some 15
   \<and> try_parse_int 64 ''17'' = Some 17 \<and> try_parse_int 64 ''--1'' = None
   \<and> try_parse_int 64 ''0xG'' = None \<and> try_parse_int 64 ''12ab'' = None
   \<and> try_parse_int 64 ''+42'' = Some 42 \<and> try_parse_int 64 ''-0x10'' = Some (- 16)
   \<and> try_parse_int 64 ''-'' = None \<and> try_parse_int 64 ''+'' = None
   \<and> try_parse_int 64 ''0x'' = None \<and> try_parse_int 64 [] = None
   \<and> v4front_compile lp64 1 (Some ''2147483647'') =
       Inr \<lparr>words = Null, word_count = 0, data = Ptr [0x00, 0xFF, 0xFF, 0xFF, 0x7F, 0x51],
            size_of_data = 6\<rparr>
   \<and> v4front_compile lp64 1 (Some ''-2147483648'') =
       Inr \<lparr>words = Null, word_count = 0, data = Ptr [0x00, 0x00, 0x00, 0x00, 0x80, 0x51],
            size_of_data = 6\<rparr>
   \<and> v4front_compile ilp32 1 (Some ''2147483647'') =
       Inr \<lparr>words = Null, word_count = 0, data = Ptr [0x00, 0xFF, 0xFF, 0xFF, 0x7F, 0x51],
            size_of_data = 6\<rparr>
   \<and> v4front_compile ilp32 1 (Some ''-2147483648'') =
       Inr \<lparr>words = Null, word_count = 0, data = Ptr [0x00, 0x00, 0x00, 0x00, 0x80, 0x51],
            size_of_data = 6\<rparr>
   \<and> v4front_compile lp64 1 (Some ''-42 +42'') =
       Inr \<lparr>words = Null, word_count = 0,
            data = Ptr [0x00, 0xD6, 0xFF, 0xFF, 0xFF, 0x00, 0x2A, 0x00, 0x00, 0x00, 0x51],
            size_of_data = 11\<rparr>"
proof (intro conjI)
  show "try_parse_int L token = Some v \<longleftrightarrow>
      (\<exists>sgn pre ds base.
           dropWhile isspace token = sgn @ pre @ ds \<and> sgn \<in> {[], ''-'', ''+''} \<and> ds \<noteq> [] \<and>
           (\<forall>c \<in> set ds. is_digit base c) \<and>
           ((pre \<in> {''0x'', ''0X''} \<and> base = 16) \<or>
            (pre = [] \<and> hd ds = CHR ''0'' \<and> base = 8) \<or>
            (pre = [] \<and> hd ds \<noteq> CHR ''0'' \<and> base = 10)) \<and>
           v = word_of_int (clamp_long L ((if sgn = ''-'' then - 1 else 1) * digits_value base 0 ds)))"
    by (rule try_parse_int_iff)
qed code_simp+

text \<open>
  The theorem at the tokens \<^verbatim>\<open>+017\<close> (accepted because it has the shape) and
  \<^verbatim>\<open>-0x1F\<close> (of the shape because it is accepted).
\<close>

theorem C3_integer_parser_witness:
  "dropWhile isspace ''+017'' = ''+'' @ [] @ ''017''
   \<and> list_all (is_digit 8) ''017''
   \<and> (15 :: 32 word) = word_of_int (clamp_long 64 (1 * digits_value 8 0 ''017''))
   \<and> try_parse_int 64 ''+017'' = Some 15
   \<and> try_parse_int 64 ''-0x1F'' = Some (- 31)
   \<and> (\<exists>sgn pre ds base.
           dropWhile isspace ''-0x1F'' = sgn @ pre @ ds \<and> sgn \<in> {[], ''-'', ''+''} \<and> ds \<noteq> [] \<and>
           (\<forall>c \<in> set ds. is_digit base c) \<and>
           ((pre \<in> {''0x'', ''0X''} \<and> base = 16) \<or>
            (pre = [] \<and> hd ds = CHR ''0'' \<and> base = 8) \<or>
            (pre = [] \<and> hd ds \<noteq> CHR ''0'' \<and> base = 10)) \<and>
           (- 31 :: 32 word) =
             word_of_int (clamp_long 64 ((if sgn = ''-'' then - 1 else 1) * digits_value base 0 ds)))"
proof -
  have s: "dropWhile isspace ''+017'' = ''+'' @ [] @ ''017'' \<and> ''+'' \<in> {[], ''-'', ''+''}
           \<and> ''017'' \<noteq> [] \<and> (\<forall>c \<in> set ''017''. is_digit 8 c)
           \<and> (([] :: string) \<in> {''0x'', ''0X''} \<and> (8 :: int) = 16 \<or>
               ([] :: string) = [] \<and> hd ''017'' = CHR ''0'' \<and> (8 :: int) = 8 \<or>
               ([] :: string) = [] \<and> hd ''017'' \<noteq> CHR ''0'' \<and> (8 :: int) = 10)
           \<and> (15 :: 32 word) =
               word_of_int (clamp_long 64 ((if ''+'' = ''-'' then - 1 else 1) * digits_value 8 0 ''017''))"
    by code_simp
  then have "\<exists>sgn pre ds base.
           dropWhile isspace ''+017'' = sgn @ pre @ ds \<and> sgn \<in> {[], ''-'', ''+''} \<and> ds \<noteq> [] \<and>
           (\<forall>c \<in> set ds. is_digit base c) \<and>
           ((pre \<in> {''0x'', ''0X''} \<and> base = 16) \<or>
            (pre = [] \<and> hd ds = CHR ''0'' \<and> base = 8) \<or>
            (pre = [] \<and> hd ds \<noteq> CHR ''0'' \<and> base = 10)) \<and>
           (15 :: 32 word) =
             word_of_int (clamp_long 64 ((if sgn = ''-'' then - 1 else 1) * digits_value base 0 ds))"
    apply (rule_tac x = "''+''" in exI)
    apply (rule_tac x = "[]" in exI)
    apply (rule_tac x = "''017''" in exI)
    apply (rule_tac x = 8 in exI)
    apply assumption
    done
  with C3_integer_parser[of 64 "''+017''" 15] have a: "try_parse_int 64 ''+017'' = Some 15"
    by blast
  have f: "dropWhile isspace ''+017'' = ''+'' @ [] @ ''017''" "list_all (is_digit 8) ''017''"
    "(15 :: 32 word) = word_of_int (clamp_long 64 (1 * digits_value 8 0 ''017''))"
    by code_simp+
  have p: "try_parse_int 64 ''-0x1F'' = Some (- 31)" by code_simp
  from C3_integer_parser[of 64 "''-0x1F''" "- 31"] p a f show ?thesis by blast
qed

text \<open>
  Claim C3 as stated fails: a literal one past either bound is not rejected.  With a 64-bit
  \<^verbatim>\<open>long\<close> it is emitted with the wrapped value, with a 32-bit \<^verbatim>\<open>long\<close> with the
  clamped one; and \<^verbatim>\<open>010\<close> is read in base 8, not 10.
\<close>

theorem C3_out_of_range_and_octal_literals:
  "v4front_compile lp64 1 (Some ''2147483648'') =
     Inr \<lparr>words = Null, word_count = 0, data = Ptr [0x00, 0x00, 0x00, 0x00, 0x80, 0x51],
          size_of_data = 6\<rparr>
   \<and> v4front_compile lp64 1 (Some ''-2147483649'') =
     Inr \<lparr>words = Null, word_count = 0, data = Ptr [0x00, 0xFF, 0xFF, 0xFF, 0x7F, 0x51],
          size_of_data = 6\<rparr>
   \<and> v4front_compile ilp32 1 (Some ''2147483648'') =
     Inr \<lparr>words = Null, word_count = 0, data = Ptr [0x00, 0xFF, 0xFF, 0xFF, 0x7F, 0x51],
          size_of_data = 6\<rparr>
   \<and> v4front_compile ilp32 1 (Some ''-2147483649'') =
     Inr \<lparr>words = Null, word_count = 0, data = Ptr [0x00, 0x00, 0x00, 0x00, 0x80, 0x51],
          size_of_data = 6\<rparr>
   \<and> v4front_compile lp64 1 (Some ''010'') =
     Inr \<lparr>words = Null, word_count = 0, data = Ptr [0x00, 0x08, 0x00, 0x00, 0x00, 0x51],
          size_of_data = 6\<rparr>"
  by code_simp

subsection \<open>Word bodies\<close>

text \<open>
  Claim C4.  In the output of every successful compilation, every word definition has a
  non-empty code sequence whose last byte is \<^verbatim>\<open>RET\<close> (and \<^verbatim>\<open>code_len\<close> is its
  length).
\<close>

theorem C4_word_bodies_end_with_ret:
  assumes "compile_internal P ctx h source = Inr out"
    and "words out = Ptr ws" and "w \<in> set ws"
  shows "w_code w \<noteq> [] \<and> last (w_code w) = opcode P Op_RET \<and> w_code_len w = length (w_code w)"
  using compile_internal_out_ok[OF assms(1)] assms(2,3) by (auto simp: out_ok_def)

text \<open>
  The theorem at \<^verbatim>\<open>: DOUBLE DUP + ; 5 DOUBLE\<close>.
\<close>

theorem C4_word_bodies_end_with_ret_witness:
  "compile_internal lp64 None 4 (Some '': DOUBLE DUP + ; 5 DOUBLE'') =
     Inr \<lparr>words = Ptr [\<lparr>w_name = ''DOUBLE'', w_code = [0x01, 0x10, 0x51], w_code_len = 3\<rparr>],
          word_count = 1, data = Ptr [0x00, 0x05, 0x00, 0x00, 0x00, 0x50, 0x00, 0x00, 0x51],
          size_of_data = 9\<rparr>
   \<and> last [0x01, 0x10, 0x51 :: byte] = opcode lp64 Op_RET"
proof -
  let ?w = "\<lparr>w_name = ''DOUBLE'', w_code = [0x01, 0x10, 0x51 :: byte], w_code_len = 3\<rparr>"
  let ?out = "\<lparr>words = Ptr [?w], word_count = 1,
               data = Ptr [0x00, 0x05, 0x00, 0x00, 0x00, 0x50, 0x00, 0x00, 0x51 :: byte],
               size_of_data = 9\<rparr>"
  have e: "compile_internal lp64 None 4 (Some '': DOUBLE DUP + ; 5 DOUBLE'') = Inr ?out"
    by code_simp
  have "words ?out = Ptr [?w]" "?w \<in> set [?w]" by simp_all
  from C4_word_bodies_end_with_ret[OF e this] e show ?thesis by simp
qed

subsection \<open>The order of the dispatch\<close>

text \<open>
  Claim C6 as stated fails: with a user-defined word \<^verbatim>\<open>NEGATE\<close> in the local word
  table, the token \<^verbatim>\<open>NEGATE\<close> compiles to \<^verbatim>\<open>CALL 0\<close>, not to the expansion of the
  composite word.
\<close>

theorem C6_user_word_shadows_composite:
  "v4front_compile lp64 4 (Some '': NEGATE 1 ; NEGATE'') =
     Inr \<lparr>words = Ptr [\<lparr>w_name = ''NEGATE'', w_code = [0x00, 0x01, 0x00, 0x00, 0x00, 0x51],
                         w_code_len = 6\<rparr>],
          word_count = 1, data = Ptr [0x50, 0x00, 0x00, 0x51], size_of_data = 4\<rparr>
   \<and> composite lp64 ''NEGATE'' = Some (map (opcode lp64) [Op_LIT0, Op_SWAP, Op_SUB])
   \<and> [0x50, 0x00, 0x00, 0x51] \<noteq> map (opcode lp64) [Op_LIT0, Op_SWAP, Op_SUB, Op_RET]"
  by code_simp

text \<open>
  Claim C6, as the code has it.  When a token matches a composite pseudo-word and the name
  of a word of the local word table, and \<open>i\<close> is the index of the first word of the
  table whose name equals the token (ignoring case), the \<^verbatim>\<open>CALL\<close> to word \<open>i\<close> is
  emitted: the local word table is consulted before the composite words.  With the words
  \<^verbatim>\<open>A\<close> and \<^verbatim>\<open>NEGATE\<close> defined in this order, \<^verbatim>\<open>NEGATE\<close> compiles to
  \<^verbatim>\<open>CALL 1\<close> and \<^verbatim>\<open>A\<close> to \<^verbatim>\<open>CALL 0\<close>.
\<close>

theorem C6_local_word_before_composite:
  "(composite P token = Some bs \<longrightarrow> i < length (word_dict st) \<longrightarrow>
      str_eq_ci token (name (word_dict st ! i)) \<longrightarrow>
      (\<forall>j<i. \<not> str_eq_ci token (name (word_dict st ! j))) \<longrightarrow>
      dispatch P ctx token p st = keep p (emit (opcode P Op_CALL # i16_le (of_nat i)) st))
   \<and> v4front_compile lp64 6 (Some '': A 1 ; : NEGATE 2 ; NEGATE negate A'') =
       Inr \<lparr>words = Ptr [\<lparr>w_name = ''A'', w_code = [0x00, 0x01, 0x00, 0x00, 0x00, 0x51],
                           w_code_len = 6\<rparr>,
                          \<lparr>w_name = ''NEGATE'', w_code = [0x00, 0x02, 0x00, 0x00, 0x00, 0x51],
                           w_code_len = 6\<rparr>],
            word_count = 2,
            data = Ptr [0x50, 0x01, 0x00, 0x50, 0x01, 0x00, 0x50, 0x00, 0x00, 0x51],
            size_of_data = 10\<rparr>"
proof (intro conjI impI)
  assume "composite P token = Some bs" and "i < length (word_dict st)"
    and "str_eq_ci token (name (word_dict st ! i))"
    and "\<forall>j<i. \<not> str_eq_ci token (name (word_dict st ! j))"
  then show "dispatch P ctx token p st = keep p (emit (opcode P Op_CALL # i16_le (of_nat i)) st)"
    using dispatch_first_match[OF composite_not_keyword] by blast
qed code_simp

text \<open>
  The theorem at the token \<^verbatim>\<open>negate\<close> with the local words \<^verbatim>\<open>A\<close> and
  \<^verbatim>\<open>NEGATE\<close>.
\<close>

theorem C6_local_word_before_composite_witness:
  "composite lp64 ''negate'' = Some (map (opcode lp64) [Op_LIT0, Op_SWAP, Op_SUB])
   \<and> name ([\<lparr>name = ''A'', code = [0x51]\<rparr>, \<lparr>name = ''NEGATE'', code = [0x51]\<rparr>] ! 1) = ''NEGATE''
   \<and> str_eq_ci ''negate'' ''NEGATE'' \<and> \<not> str_eq_ci ''negate'' ''A''
   \<and> dispatch lp64 None ''negate'' []
        ((init_state 1)\<lparr>word_dict := [\<lparr>name = ''A'', code = [0x51]\<rparr>,
                                        \<lparr>name = ''NEGATE'', code = [0x51]\<rparr>]\<rparr>) =
       Inr ([], (init_state 0)\<lparr>bc := \<lparr>bytes = [0x50, 0x01, 0x00], cap = 64\<rparr>,
                                word_dict := [\<lparr>name = ''A'', code = [0x51]\<rparr>,
                                              \<lparr>name = ''NEGATE'', code = [0x51]\<rparr>]\<rparr>)"
proof -
  let ?ws = "[\<lparr>name = ''A'', code = [0x51 :: byte]\<rparr>, \<lparr>name = ''NEGATE'', code = [0x51]\<rparr>]"
  let ?st = "(init_state 1)\<lparr>word_dict := ?ws\<rparr>"
  have c: "composite lp64 ''negate'' = Some (map (opcode lp64) [Op_LIT0, Op_SWAP, Op_SUB])"
    by code_simp
  have m: "str_eq_ci ''negate'' ''NEGATE''" "\<not> str_eq_ci ''negate'' ''A''" by code_simp+
  have w: "word_dict ?st = ?ws" by simp
  have i: "(1 :: nat) < length (word_dict ?st)"
    "str_eq_ci ''negate'' (name (word_dict ?st ! 1))"
    "\<forall>j<1. \<not> str_eq_ci ''negate'' (name (word_dict ?st ! j))"
    using m by (simp_all add: w)
  have k: "keep [] (emit (opcode lp64 Op_CALL # i16_le (of_nat 1)) ?st) =
       Inr ([], (init_state 0)\<lparr>bc := \<lparr>bytes = [0x50, 0x01, 0x00], cap = 64\<rparr>,
                                word_dict := ?ws\<rparr>)"
    by code_simp
  from C6_local_word_before_composite[of lp64 "''negate''" _ 1 ?st None "[]"] c i
  have "dispatch lp64 None ''negate'' [] ?st =
          keep [] (emit (opcode lp64 Op_CALL # i16_le (of_nat 1)) ?st)"
    by blast
  with k c m show ?thesis by simp
qed

text \<open>
  Claim C10.  A token that is a primitive mnemonic and also the name of a word of the local
  word table compiles to a \<^verbatim>\<open>CALL\<close> to the index of the first word of the table
  whose name equals the token (ignoring case), not to the primitive opcode.  The token
  \<^verbatim>\<open>:\<close> followed by a primitive mnemonic is accepted as the start of a definition
  whenever no earlier word has that name (the dictionary not being full and no definition
  being open): the name is checked against the defined words only.  When \<^verbatim>\<open>;\<close>
  closes the definition, the word is stored under that name at the end of the table, and a
  later token equal to the name compiles to a \<^verbatim>\<open>CALL\<close> to that index.
  \<^verbatim>\<open>: DUP 1 ; DUP dup\<close> compiles to two calls of word 0, and after
  \<^verbatim>\<open>: A 1 ; : DUP 2 ;\<close> the tokens \<^verbatim>\<open>DUP\<close> and \<^verbatim>\<open>dup\<close> compile to calls
  of word 1.
\<close>

theorem C10_user_word_shadows_primitive:
  "(lookup_simple_opcode token = Some op \<longrightarrow> i < length (word_dict st) \<longrightarrow>
      str_eq_ci token (name (word_dict st ! i)) \<longrightarrow>
      (\<forall>j<i. \<not> str_eq_ci token (name (word_dict st ! j))) \<longrightarrow>
      dispatch P ctx token p st = keep p (emit (opcode P Op_CALL # i16_le (of_nat i)) st))
   \<and> (str_eq_ci colon '':'' \<longrightarrow> lookup_simple_opcode nm = Some op' \<longrightarrow>
       \<not> in_definition st \<longrightarrow> (\<forall>c \<in> set nm. \<not> isspace c) \<longrightarrow>
       (\<forall>e \<in> set (word_dict st). \<not> str_eq_ci (name e) nm) \<longrightarrow>
       length (word_dict st) < MAX_WORDS \<longrightarrow>
       dispatch P ctx colon (CHR '' '' # nm @ CHR '' '' # rest) st =
         Inr (CHR '' '' # rest,
              st\<lparr>in_definition := True, current_word_name := nm, word_bc := empty_buffer\<rparr>))
   \<and> (handle_semicolon_end P st = Inr st' \<longrightarrow>
       length (current_word_name st) < MAX_WORD_NAME_LEN \<longrightarrow>
       (\<forall>e \<in> set (word_dict st). \<not> str_eq_ci (name e) (current_word_name st)) \<longrightarrow>
       str_eq_ci token (current_word_name st) \<longrightarrow> lookup_simple_opcode token = Some op \<longrightarrow>
       length (word_dict st') = Suc (length (word_dict st)) \<and>
       name (word_dict st' ! length (word_dict st)) = current_word_name st \<and>
       dispatch P ctx token p st' =
         keep p (emit (opcode P Op_CALL # i16_le (of_nat (length (word_dict st)))) st'))
   \<and> v4front_compile lp64 4 (Some '': DUP 1 ; DUP dup'') =
       Inr \<lparr>words = Ptr [\<lparr>w_name = ''DUP'', w_code = [0x00, 0x01, 0x00, 0x00, 0x00, 0x51],
                           w_code_len = 6\<rparr>],
            word_count = 1, data = Ptr [0x50, 0x00, 0x00, 0x50, 0x00, 0x00, 0x51],
            size_of_data = 7\<rparr>
   \<and> v4front_compile lp64 1 (Some ''DUP dup'') =
       Inr \<lparr>words = Null, word_count = 0, data = Ptr [0x01, 0x01, 0x51], size_of_data = 3\<rparr>
   \<and> v4front_compile lp64 6 (Some '': A 1 ; : DUP 2 ; DUP dup A'') =
       Inr \<lparr>words = Ptr [\<lparr>w_name = ''A'', w_code = [0x00, 0x01, 0x00, 0x00, 0x00, 0x51],
                           w_code_len = 6\<rparr>,
                          \<lparr>w_name = ''DUP'', w_code = [0x00, 0x02, 0x00, 0x00, 0x00, 0x51],
                           w_code_len = 6\<rparr>],
            word_count = 2,
            data = Ptr [0x50, 0x01, 0x00, 0x50, 0x01, 0x00, 0x50, 0x00, 0x00, 0x51],
            size_of_data = 10\<rparr>"
proof (intro conjI impI)
  assume "lookup_simple_opcode token = Some op" and "i < length (word_dict st)"
    and "str_eq_ci token (name (word_dict st ! i))"
    and "\<forall>j<i. \<not> str_eq_ci token (name (word_dict st ! j))"
  then show "dispatch P ctx token p st = keep p (emit (opcode P Op_CALL # i16_le (of_nat i)) st)"
    using dispatch_first_match[OF primitive_not_keyword] by blast
next
  assume c: "str_eq_ci colon '':''" and l: "lookup_simple_opcode nm = Some op'"
    and a: "\<not> in_definition st" "\<forall>c \<in> set nm. \<not> isspace c"
      "\<forall>e \<in> set (word_dict st). \<not> str_eq_ci (name e) nm" "length (word_dict st) < MAX_WORDS"
  from lookup_in_table_Some[OF l[unfolded lookup_simple_opcode_def]] obtain e op'' cs where
    e: "(e, op'', cs) \<in> set OPCODE_TABLE" "str_eq_ci nm e" by blast
  have "\<forall>(e, op, cs) \<in> set OPCODE_TABLE. e \<noteq> [] \<and> length e < MAX_WORD_NAME_LEN" by code_simp
  with e(1) have "e \<noteq> [] \<and> length e < MAX_WORD_NAME_LEN" by blast
  moreover from e(2) have "length nm = length e"
    unfolding str_eq_ci_iff by (metis length_map)
  ultimately have n: "nm \<noteq> []" "length nm < MAX_WORD_NAME_LEN" by auto
  from c have "dispatch P ctx colon (CHR '' '' # nm @ CHR '' '' # rest) st =
                 handle_colon_start (CHR '' '' # nm @ CHR '' '' # rest) st"
    by (simp add: dispatch_def)
  with handle_colon_start_accepts[OF a(1) n a(2,3,4)]
  show "dispatch P ctx colon (CHR '' '' # nm @ CHR '' '' # rest) st =
         Inr (CHR '' '' # rest,
              st\<lparr>in_definition := True, current_word_name := nm, word_bc := empty_buffer\<rparr>)"
    by simp
next
  assume s: "handle_semicolon_end P st = Inr st'"
    and n: "length (current_word_name st) < MAX_WORD_NAME_LEN"
  show "length (word_dict st') = Suc (length (word_dict st))"
    using handle_semicolon_end_word(1)[OF s n] .
  show "name (word_dict st' ! length (word_dict st)) = current_word_name st"
    using handle_semicolon_end_word(2)[OF s n] .
  assume "\<forall>e \<in> set (word_dict st). \<not> str_eq_ci (name e) (current_word_name st)"
    and "str_eq_ci token (current_word_name st)" and "lookup_simple_opcode token = Some op"
  then show "dispatch P ctx token p st' =
         keep p (emit (opcode P Op_CALL # i16_le (of_nat (length (word_dict st)))) st')"
    using dispatch_defined_word[OF s n _ _ primitive_not_keyword] by blast
qed code_simp+

text \<open>
  The theorem at the token \<^verbatim>\<open>dup\<close>: with the local words \<^verbatim>\<open>A\<close> and
  \<^verbatim>\<open>DUP\<close>, at the start of its definition, and after the end of its definition
  as the second word.
\<close>

theorem C10_user_word_shadows_primitive_witness:
  "lookup_simple_opcode ''dup'' = Some Op_DUP
   \<and> str_eq_ci ''dup'' ''DUP'' \<and> \<not> str_eq_ci ''dup'' ''A''
   \<and> dispatch lp64 None ''dup'' []
        ((init_state 1)\<lparr>word_dict := [\<lparr>name = ''A'', code = [0x51]\<rparr>,
                                        \<lparr>name = ''DUP'', code = [0x51]\<rparr>]\<rparr>) =
       Inr ([], (init_state 0)\<lparr>bc := \<lparr>bytes = [0x50, 0x01, 0x00], cap = 64\<rparr>,
                                word_dict := [\<lparr>name = ''A'', code = [0x51]\<rparr>,
                                              \<lparr>name = ''DUP'', code = [0x51]\<rparr>]\<rparr>)
   \<and> str_eq_ci '':'' '':'' \<and> \<not> in_definition (init_state 1)
   \<and> filter isspace ''dup'' = []
   \<and> word_dict (init_state 1) = []
   \<and> length (word_dict (init_state 1)) < MAX_WORDS
   \<and> dispatch lp64 None '':'' (CHR '' '' # ''dup'' @ CHR '' '' # ''1 ;'') (init_state 1) =
       Inr (CHR '' '' # ''1 ;'',
            (init_state 1)\<lparr>in_definition := True, current_word_name := ''dup'',
                            word_bc := empty_buffer\<rparr>)
   \<and> handle_semicolon_end lp64
        ((init_state 1)\<lparr>in_definition := True, current_word_name := ''dup'',
                         word_bc := \<lparr>bytes = [0x00, 0x02, 0x00, 0x00, 0x00], cap = 64\<rparr>,
                         word_dict := [\<lparr>name = ''A'', code = [0x51]\<rparr>]\<rparr>) =
       Inr ((init_state 1)\<lparr>word_dict := [\<lparr>name = ''A'', code = [0x51]\<rparr>,
                 \<lparr>name = ''dup'', code = [0x00, 0x02, 0x00, 0x00, 0x00, 0x51]\<rparr>]\<rparr>)
   \<and> dispatch lp64 None ''DUP'' []
        ((init_state 1)\<lparr>word_dict := [\<lparr>name = ''A'', code = [0x51]\<rparr>,
                 \<lparr>name = ''dup'', code = [0x00, 0x02, 0x00, 0x00, 0x00, 0x51]\<rparr>]\<rparr>) =
       Inr ([], (init_state 0)\<lparr>bc := \<lparr>bytes = [0x50, 0x01, 0x00], cap = 64\<rparr>,
                 word_dict := [\<lparr>name = ''A'', code = [0x51]\<rparr>,
                 \<lparr>name = ''dup'', code = [0x00, 0x02, 0x00, 0x00, 0x00, 0x51]\<rparr>]\<rparr>)"
proof -
  let ?ws = "[\<lparr>name = ''A'', code = [0x51 :: byte]\<rparr>, \<lparr>name = ''DUP'', code = [0x51]\<rparr>]"
  let ?st = "(init_state 1)\<lparr>word_dict := ?ws\<rparr>"
  let ?sd = "(init_state 1)\<lparr>in_definition := True, current_word_name := ''dup'',
                         word_bc := \<lparr>bytes = [0x00, 0x02, 0x00, 0x00, 0x00 :: byte], cap = 64\<rparr>,
                         word_dict := [\<lparr>name = ''A'', code = [0x51 :: byte]\<rparr>]\<rparr>"
  let ?ws' = "[\<lparr>name = ''A'', code = [0x51 :: byte]\<rparr>,
                 \<lparr>name = ''dup'', code = [0x00, 0x02, 0x00, 0x00, 0x00, 0x51]\<rparr>]"
  let ?sd' = "(init_state 1)\<lparr>word_dict := ?ws'\<rparr>"
  have l: "lookup_simple_opcode ''dup'' = Some Op_DUP" "lookup_simple_opcode ''DUP'' = Some Op_DUP"
    by code_simp+
  have m: "str_eq_ci ''dup'' ''DUP''" "\<not> str_eq_ci ''dup'' ''A''" "str_eq_ci ''DUP'' ''dup''"
    "\<not> str_eq_ci ''A'' ''dup''"
    by code_simp+
  have w: "word_dict ?st = ?ws" by simp
  have i: "(1 :: nat) < length (word_dict ?st)"
    "str_eq_ci ''dup'' (name (word_dict ?st ! 1))"
    "\<forall>j<1. \<not> str_eq_ci ''dup'' (name (word_dict ?st ! j))"
    using m by (simp_all add: w)
  have k: "keep [] (emit (opcode lp64 Op_CALL # i16_le (of_nat 1)) ?st) =
       Inr ([], (init_state 0)\<lparr>bc := \<lparr>bytes = [0x50, 0x01, 0x00], cap = 64\<rparr>,
                                word_dict := ?ws\<rparr>)"
    by code_simp
  have c: "str_eq_ci '':'' '':''" by code_simp
  have a: "\<not> in_definition (init_state 1)" "\<forall>c \<in> set ''dup''. \<not> isspace c"
    "\<forall>e \<in> set (word_dict (init_state 1)). \<not> str_eq_ci (name e) ''dup''"
    "length (word_dict (init_state 1)) < MAX_WORDS"
    by code_simp+
  have f: "filter isspace ''dup'' = []" "word_dict (init_state 1) = []"
    by (simp_all add: isspace_def init_state_def)
  have s: "handle_semicolon_end lp64 ?sd = Inr ?sd'" by code_simp
  have n: "length (current_word_name ?sd) < MAX_WORD_NAME_LEN"
    "\<forall>e \<in> set (word_dict ?sd). \<not> str_eq_ci (name e) (current_word_name ?sd)"
    "str_eq_ci ''DUP'' (current_word_name ?sd)" "length (word_dict ?sd) = 1"
    using m by (simp_all add: MAX_WORD_NAME_LEN_def)
  have k': "keep [] (emit (opcode lp64 Op_CALL # i16_le (of_nat 1)) ?sd') =
       Inr ([], (init_state 0)\<lparr>bc := \<lparr>bytes = [0x50, 0x01, 0x00], cap = 64\<rparr>,
                                word_dict := ?ws'\<rparr>)"
    by code_simp
  from C10_user_word_shadows_primitive[where token = "''dup''" and op = Op_DUP and i = 1
      and st = ?st and P = lp64 and ctx = None and p = "[]"] l(1) i
  have d1: "dispatch lp64 None ''dup'' [] ?st =
          keep [] (emit (opcode lp64 Op_CALL # i16_le (of_nat 1)) ?st)"
    by blast
  from C10_user_word_shadows_primitive[where colon = "'':''" and nm = "''dup''" and op' = Op_DUP
      and st = "init_state 1" and P = lp64 and ctx = None and rest = "''1 ;''"] c l(1) a
  have d2: "dispatch lp64 None '':'' (CHR '' '' # ''dup'' @ CHR '' '' # ''1 ;'') (init_state 1) =
       Inr (CHR '' '' # ''1 ;'',
            (init_state 1)\<lparr>in_definition := True, current_word_name := ''dup'',
                            word_bc := empty_buffer\<rparr>)"
    by blast
  from C10_user_word_shadows_primitive[where token = "''DUP''" and op = Op_DUP
      and st = ?sd and st' = ?sd' and P = lp64 and ctx = None and p = "[]"] s l(2) n(1,2,3)
  have "dispatch lp64 None ''DUP'' [] ?sd' =
          keep [] (emit (opcode lp64 Op_CALL # i16_le (of_nat (length (word_dict ?sd)))) ?sd')"
    by blast
  then have d3: "dispatch lp64 None ''DUP'' [] ?sd' =
          keep [] (emit (opcode lp64 Op_CALL # i16_le (of_nat 1)) ?sd')"
    unfolding n(4) .
  show ?thesis
    using l(1) m(1,2) d1[unfolded k] c a(1,4) f d2 s d3[unfolded k'] by blast
qed

subsection \<open>Empty sources\<close>

text \<open>
  Claim C7.  For a null source, and for every source that is empty or consists of white
  space only (up to its first NUL byte), the compilation succeeds whenever one allocation is
  granted, and the output is the single byte \<^verbatim>\<open>RET\<close> with no word definitions.
\<close>

theorem C7_empty_and_blank_sources:
  "compile_internal P ctx (Suc h) None =
     Inr \<lparr>words = Null, word_count = 0, data = Ptr [opcode P Op_RET], size_of_data = 1\<rparr>
   \<and> (\<forall>s. (\<forall>c \<in> set (c_str s). isspace c) \<longrightarrow>
          compile_internal P ctx (Suc h) (Some s) =
            Inr \<lparr>words = Null, word_count = 0, data = Ptr [opcode P Op_RET], size_of_data = 1\<rparr>)"
proof (intro conjI allI impI)
  show "compile_internal P ctx (Suc h) None =
     Inr \<lparr>words = Null, word_count = 0, data = Ptr [opcode P Op_RET], size_of_data = 1\<rparr>"
    by (simp add: compile_internal_def empty_input_result)
next
  fix s assume a: "\<forall>c \<in> set (c_str s). isspace c"
  then have "dropWhile isspace (c_str s) = []" by simp
  then have "compile_loop P ctx (c_str s) (init_state (Suc h)) = finish P (init_state (Suc h))"
    by (rule compile_loop_end)
  then show "compile_internal P ctx (Suc h) (Some s) =
     Inr \<lparr>words = Null, word_count = 0, data = Ptr [opcode P Op_RET], size_of_data = 1\<rparr>"
    by (simp add: compile_internal_def empty_input_result finish_init_result)
qed

text \<open>
  The theorem at a source of blanks, a tab and a newline.
\<close>

theorem C7_empty_and_blank_sources_witness:
  "filter (\<lambda>c. \<not> isspace c) (c_str [CHR '' '', CHR 0x09, CHR 0x0A, CHR '' '']) = []
   \<and> compile_internal lp64 None 1 (Some [CHR '' '', CHR 0x09, CHR 0x0A, CHR '' '']) =
       Inr \<lparr>words = Null, word_count = 0, data = Ptr [0x51], size_of_data = 1\<rparr>
   \<and> compile_internal lp64 None 1 (Some []) =
       Inr \<lparr>words = Null, word_count = 0, data = Ptr [0x51], size_of_data = 1\<rparr>
   \<and> compile_internal lp64 None 1 None =
       Inr \<lparr>words = Null, word_count = 0, data = Ptr [0x51], size_of_data = 1\<rparr>"
proof -
  have w: "\<forall>c \<in> set (c_str [CHR '' '', CHR 0x09, CHR 0x0A, CHR '' '']). isspace c"
    by (simp add: c_str_def isspace_def)
  have e: "\<forall>c \<in> set (c_str []). isspace c" by (simp add: c_str_def)
  have r: "opcode lp64 Op_RET = 0x51" by (simp add: lp64_def v4_opcode_def)
  have f: "filter (\<lambda>c. \<not> isspace c) (c_str [CHR '' '', CHR 0x09, CHR 0x0A, CHR '' '']) = []"
    by (simp add: c_str_def isspace_def)
  from C7_empty_and_blank_sources[of lp64 None 0] w e r f show ?thesis
    by (simp del: One_nat_def add: One_nat_def[symmetric])
qed

subsection \<open>The operand of \<^verbatim>\<open>SYS\<close>\<close>

text \<open>
  Claim C8.  The claim fails on the code where \<^verbatim>\<open>long\<close> has 64 bits: the test
  \<^verbatim>\<open>sys_id < 0 || sys_id > 255\<close> is made on the operand after
  \<^verbatim>\<open>try_parse_int\<close> has cast it to 32 bits.  The token \<^verbatim>\<open>4294967296\<close> is the
  integer 4294967296 (2 to the power 32), which is not in 0..255; it is cast to 0, and
  \<^verbatim>\<open>SYS 4294967296\<close> compiles to \<^verbatim>\<open>SYS 0\<close> instead of failing with
  \<^verbatim>\<open>InvalidSysId\<close>.  Likewise \<^verbatim>\<open>SYS 4294967551\<close> compiles to \<^verbatim>\<open>SYS 255\<close>
  and \<^verbatim>\<open>SYS -4294967295\<close> to \<^verbatim>\<open>SYS 1\<close>.  With a 32-bit \<^verbatim>\<open>long\<close> the
  value is clamped by \<^verbatim>\<open>strtol\<close> and the token is rejected.  The examples of the
  claim hold: \<^verbatim>\<open>SYS\<close> alone fails with \<^verbatim>\<open>MissingSysId\<close>, \<^verbatim>\<open>SYS 256\<close> with
  \<^verbatim>\<open>InvalidSysId\<close>, and \<^verbatim>\<open>SYS 255\<close> emits the opcode and the byte \<^verbatim>\<open>FF\<close>.
\<close>

theorem C8_sys_operand_beyond_32_bits:
  "strtol 64 ''4294967296'' = Some (4294967296, [])
   \<and> try_parse_int 64 ''4294967296'' = Some 0
   \<and> v4front_compile lp64 1 (Some ''SYS 4294967296'') =
       Inr \<lparr>words = Null, word_count = 0, data = Ptr [0x60, 0x00, 0x51], size_of_data = 3\<rparr>
   \<and> v4front_compile lp64 1 (Some ''SYS 4294967551'') =
       Inr \<lparr>words = Null, word_count = 0, data = Ptr [0x60, 0xFF, 0x51], size_of_data = 3\<rparr>
   \<and> v4front_compile lp64 1 (Some ''SYS -4294967295'') =
       Inr \<lparr>words = Null, word_count = 0, data = Ptr [0x60, 0x01, 0x51], size_of_data = 3\<rparr>
   \<and> v4front_compile ilp32 1 (Some ''SYS 4294967296'') = Inl (Failed InvalidSysId, zero_buf)
   \<and> v4front_compile lp64 1 (Some ''SYS'') = Inl (Failed MissingSysId, zero_buf)
   \<and> v4front_compile lp64 1 (Some ''SYS 256'') = Inl (Failed InvalidSysId, zero_buf)
   \<and> v4front_compile lp64 1 (Some ''SYS -1'') = Inl (Failed InvalidSysId, zero_buf)
   \<and> v4front_compile lp64 1 (Some ''SYS DUP'') = Inl (Failed InvalidSysId, zero_buf)
   \<and> v4front_compile lp64 1 (Some ''SYS 255'') =
       Inr \<lparr>words = Null, word_count = 0, data = Ptr [0x60, 0xFF, 0x51], size_of_data = 3\<rparr>
   \<and> v4front_compile lp64 1 (Some ''sys 0x10 DUP'') =
       Inr \<lparr>words = Null, word_count = 0, data = Ptr [0x60, 0x10, 0x01, 0x51], size_of_data = 4\<rparr>"
  by code_simp

subsection \<open>Saving and loading\<close>

text \<open>
  Claim C9 as stated fails: a file shorter than the 16 bytes of the header whose first four
  bytes are not \<^verbatim>\<open>V4BC\<close> fails with -3, the code of a header that cannot be read,
  which a short file with the right magic gets too.  The header is read whole before the
  magic is looked at.
\<close>

theorem C9_short_file_wrong_magic:
  "take 4 [0x56, 0x34, 0x42, 0x42, 0, 1, 0, 0 :: byte] \<noteq> V4B_MAGIC
   \<and> v4front_load_bytecode (Some ''a.v4b'') (Some [0x56, 0x34, 0x42, 0x42, 0, 1, 0, 0]) 1 = Inl (- 3)
   \<and> take 4 [0x56, 0x34, 0x42, 0x43, 0, 1, 0, 0 :: byte] = V4B_MAGIC
   \<and> v4front_load_bytecode (Some ''a.v4b'') (Some [0x56, 0x34, 0x42, 0x43, 0, 1, 0, 0]) 1 = Inl (- 3)"
  by code_simp

text \<open>
  Claim C9, as the code has it.  The output of a successful compilation has a non-empty
  main bytecode; saving it (to a device with room for it) and loading the file back (with
  one allocation granted) gives a buffer with the same main bytecode and no word
  definitions.  Loading a file that holds a whole header of 16 bytes whose first four
  bytes are not \<^verbatim>\<open>V4BC\<close> fails with -4, and -4 is returned for no other reason.
\<close>

theorem C9_save_load_roundtrip:
  "(compile_internal P ctx h source = Inr out \<longrightarrow> 16 + size_of_data out \<le> room \<longrightarrow>
      (\<exists>bs file. data out = Ptr bs \<and> bs \<noteq> [] \<and> size_of_data out = length bs \<and>
         v4front_save_bytecode (Some out) (Some fn) (Some room) = Inr file \<and>
         v4front_load_bytecode (Some fn) (Some file) (Suc k) =
           Inr \<lparr>words = Null, word_count = 0, data = Ptr bs, size_of_data = length bs\<rparr>))
   \<and> (16 \<le> length file' \<longrightarrow> take 4 file' \<noteq> V4B_MAGIC \<longrightarrow>
        v4front_load_bytecode (Some fn) (Some file') k' = Inl (- 4))
   \<and> (v4front_load_bytecode filename file'' k' = Inl (- 4) \<longrightarrow>
        (\<exists>f. file'' = Some f \<and> 16 \<le> length f \<and> take 4 f \<noteq> V4B_MAGIC))"
proof (intro conjI impI)
  assume c: "compile_internal P ctx h source = Inr out" and r: "16 + size_of_data out \<le> room"
  from compile_internal_out_ok[OF c] obtain bs where
    b: "data out = Ptr bs" "size_of_data out = length bs" "0 < length bs" "length bs < 2 ^ 32"
    by (auto simp: out_ok_def)
  from r b(2) have "16 + length bs \<le> room" by simp
  from load_saved[OF b this, of fn fn k] b
  show "\<exists>bs file. data out = Ptr bs \<and> bs \<noteq> [] \<and> size_of_data out = length bs \<and>
         v4front_save_bytecode (Some out) (Some fn) (Some room) = Inr file \<and>
         v4front_load_bytecode (Some fn) (Some file) (Suc k) =
           Inr \<lparr>words = Null, word_count = 0, data = Ptr bs, size_of_data = length bs\<rparr>"
    by auto
next
  assume "16 \<le> length file'" and "take 4 file' \<noteq> V4B_MAGIC"
  then show "v4front_load_bytecode (Some fn) (Some file') k' = Inl (- 4)"
    by (rule load_wrong_magic)
next
  assume "v4front_load_bytecode filename file'' k' = Inl (- 4)"
  then show "\<exists>f. file'' = Some f \<and> 16 \<le> length f \<and> take 4 f \<noteq> V4B_MAGIC"
    by (rule load_minus_four)
qed

text \<open>
  The theorem at \<^verbatim>\<open>: DOUBLE DUP + ; 5 DOUBLE\<close> and at a file of 17 bytes with a wrong
  magic.
\<close>

theorem C9_save_load_roundtrip_witness:
  "compile_internal lp64 None 4 (Some '': DOUBLE DUP + ; 5 DOUBLE'') =
     Inr \<lparr>words = Ptr [\<lparr>w_name = ''DOUBLE'', w_code = [0x01, 0x10, 0x51], w_code_len = 3\<rparr>],
          word_count = 1, data = Ptr [0x00, 0x05, 0x00, 0x00, 0x00, 0x50, 0x00, 0x00, 0x51],
          size_of_data = 9\<rparr>
   \<and> 16 + (9 :: nat) \<le> 25
   \<and> v4front_save_bytecode
        (Some \<lparr>words = Ptr [\<lparr>w_name = ''DOUBLE'', w_code = [0x01, 0x10, 0x51], w_code_len = 3\<rparr>],
          word_count = 1, data = Ptr [0x00, 0x05, 0x00, 0x00, 0x00, 0x50, 0x00, 0x00, 0x51],
          size_of_data = 9\<rparr>) (Some ''a.v4b'') (Some 25) =
       Inr [0x56, 0x34, 0x42, 0x43, 0x00, 0x01, 0x00, 0x00, 0x09, 0x00, 0x00, 0x00,
            0x00, 0x00, 0x00, 0x00,
            0x00, 0x05, 0x00, 0x00, 0x00, 0x50, 0x00, 0x00, 0x51]
   \<and> v4front_load_bytecode (Some ''a.v4b'')
        (Some [0x56, 0x34, 0x42, 0x43, 0x00, 0x01, 0x00, 0x00, 0x09, 0x00, 0x00, 0x00,
               0x00, 0x00, 0x00, 0x00,
               0x00, 0x05, 0x00, 0x00, 0x00, 0x50, 0x00, 0x00, 0x51]) (Suc 0) =
       Inr \<lparr>words = Null, word_count = 0,
            data = Ptr [0x00, 0x05, 0x00, 0x00, 0x00, 0x50, 0x00, 0x00, 0x51], size_of_data = 9\<rparr>
   \<and> 16 \<le> length [0x56, 0x34, 0x42, 0x42, 0, 1, 0, 0, 1, 0, 0, 0, 0, 0, 0, 0, 0x51 :: byte]
   \<and> take 4 [0x56, 0x34, 0x42, 0x42, 0, 1, 0, 0, 1, 0, 0, 0, 0, 0, 0, 0, 0x51 :: byte] \<noteq> V4B_MAGIC
   \<and> v4front_load_bytecode (Some ''a.v4b'')
        (Some [0x56, 0x34, 0x42, 0x42, 0, 1, 0, 0, 1, 0, 0, 0, 0, 0, 0, 0, 0x51]) 1 = Inl (- 4)"
proof -
  let ?out = "\<lparr>words = Ptr [\<lparr>w_name = ''DOUBLE'', w_code = [0x01, 0x10, 0x51 :: byte], w_code_len = 3\<rparr>],
          word_count = 1, data = Ptr [0x00, 0x05, 0x00, 0x00, 0x00, 0x50, 0x00, 0x00, 0x51 :: byte],
          size_of_data = 9\<rparr>"
  let ?bad = "[0x56, 0x34, 0x42, 0x42, 0, 1, 0, 0, 1, 0, 0, 0, 0, 0, 0, 0, 0x51 :: byte]"
  have e: "compile_internal lp64 None 4 (Some '': DOUBLE DUP + ; 5 DOUBLE'') = Inr ?out"
    by code_simp
  have r: "16 + size_of_data ?out \<le> 25" by simp
  have s: "v4front_save_bytecode (Some ?out) (Some ''a.v4b'') (Some 25) =
       Inr [0x56, 0x34, 0x42, 0x43, 0x00, 0x01, 0x00, 0x00, 0x09, 0x00, 0x00, 0x00,
            0x00, 0x00, 0x00, 0x00,
            0x00, 0x05, 0x00, 0x00, 0x00, 0x50, 0x00, 0x00, 0x51]"
    by code_simp
  have m: "16 \<le> length ?bad" "take 4 ?bad \<noteq> V4B_MAGIC" by (simp_all add: V4B_MAGIC_def)
  note C = C9_save_load_roundtrip[of lp64 None 4 "Some '': DOUBLE DUP + ; 5 DOUBLE''" ?out 25
             "''a.v4b''" 0 ?bad 1]
  from C e r s have
    "v4front_load_bytecode (Some ''a.v4b'')
        (Some [0x56, 0x34, 0x42, 0x43, 0x00, 0x01, 0x00, 0x00, 0x09, 0x00, 0x00, 0x00,
               0x00, 0x00, 0x00, 0x00,
               0x00, 0x05, 0x00, 0x00, 0x00, 0x50, 0x00, 0x00, 0x51]) (Suc 0) =
       Inr \<lparr>words = Null, word_count = 0,
            data = Ptr [0x00, 0x05, 0x00, 0x00, 0x00, 0x50, 0x00, 0x00, 0x51], size_of_data = 9\<rparr>"
    by auto
  moreover from C m have
    "v4front_load_bytecode (Some ''a.v4b'') (Some ?bad) 1 = Inl (- 4)" by simp
  ultimately show ?thesis using e s m by simp
qed

end
